theory Spec2Isabelle
  imports Main "HOL-Library.Sublist"
begin

section \<open>The MetaMCP client-connection manager\<close>

text \<open>
  A shallow embedding of \<^verbatim>\<open>apps/backend/src/lib/metamcp/client.ts\<close>: the address
  normalizer \<^verbatim>\<open>transformDockerUrl\<close>, the transport factory \<^verbatim>\<open>createMetaMcpClient\<close>
  and the connection establisher \<^verbatim>\<open>connectMetaMcpClient\<close>.

  JavaScript strings are modelled as \<^typ>\<open>string\<close>; a value that may be \<^verbatim>\<open>undefined\<close>
  or \<^verbatim>\<open>null\<close> is an \<^typ>\<open>'a option\<close>. Console output is part of every result, as the
  list of lines written.
\<close>

subsection \<open>Address normalizer\<close>

text \<open>
  \<^verbatim>\<open>url.replace(/localhost|127\.0\.0\.1/g, "host.docker.internal")\<close>: the global
  replace scans the subject from left to right. At each position the alternatives are
  tried in order; on a match the replacement is emitted and the scan resumes behind the
  match (both alternatives are nine characters long), otherwise the character is copied.
\<close>

definition loopback_match :: "string \<Rightarrow> bool" where
  "loopback_match s \<longleftrightarrow> prefix ''localhost'' s \<or> prefix ''127.0.0.1'' s"

fun replace_localhost :: "string \<Rightarrow> string" where
  "replace_localhost [] = []"
| "replace_localhost (c # cs) =
     (if loopback_match (c # cs)
      then ''host.docker.internal'' @ replace_localhost (drop 8 cs)
      else c # replace_localhost cs)"

text \<open>
  The first argument is the value of
  \<^verbatim>\<open>process.env.TRANSFORM_LOCALHOST_TO_DOCKER_INTERNAL\<close> (\<open>None\<close> when unset). The
  result is the returned string together with the line written by \<^verbatim>\<open>console.log\<close>.
\<close>

definition transformDockerUrl :: "string option \<Rightarrow> string \<Rightarrow> string \<times> string list" where
  "transformDockerUrl flag url =
     (if flag = Some ''true'' then
        (let transformed = replace_localhost url
         in (transformed, [''Docker URL transformation: '' @ url @ '' -> '' @ transformed]))
      else (url, [''Docker URL transformation disabled: '' @ url]))"

subsection \<open>Transport factory\<close>

text \<open>
  \<^verbatim>\<open>ServerParameters\<close> is declared in \<^verbatim>\<open>./fetch-metamcp\<close>; the record has the fields
  that \<^verbatim>\<open>client.ts\<close> reads. A field that is absent, \<^verbatim>\<open>undefined\<close> or \<^verbatim>\<open>null\<close> is
  \<open>None\<close>. The type annotation of \<^verbatim>\<open>type\<close> is erased at run time, so any string may
  arrive there.
\<close>

record OAuthTokens =
  access_token :: string

record ServerParameters =
  name :: string
  type :: "string option"
  command :: "string option"
  args :: "string list option"
  env :: "(string \<rightharpoonup> string) option"
  url :: "string option"
  oauth_tokens :: "OAuthTokens option"

text \<open>JavaScript truthiness of an optional string: defined and not empty.\<close>

definition truthy :: "string option \<Rightarrow> bool" where
  "truthy v = (case v of None \<Rightarrow> False | Some s \<Rightarrow> s \<noteq> [])"

record StdioServerParameters =
  stdio_command :: string
  stdio_args :: "string list option"
  stdio_env :: "(string \<rightharpoonup> string) option"
  stdio_stderr :: string

text \<open>
  A JavaScript object used as \<^verbatim>\<open>RequestInit\<close> is a map from property names to values;
  \<^verbatim>\<open>{...init, headers}\<close> copies the properties of \<^verbatim>\<open>init\<close> and then sets \<^verbatim>\<open>headers\<close>.
\<close>

datatype init_value = Headers "string \<rightharpoonup> string" | Other string

type_synonym RequestInit = "string \<rightharpoonup> init_value"

text \<open>
  The options handed to the SDK transports. \<open>eventSourceInit_fetch\<close> is the function
  stored under \<^verbatim>\<open>eventSourceInit.fetch\<close>; it is modelled by the arguments with which it
  calls the global \<^verbatim>\<open>fetch\<close>.
\<close>

record 'u SSEClientTransportOptions =
  sse_requestInit :: RequestInit
  eventSourceInit_fetch :: "'u \<Rightarrow> RequestInit option \<Rightarrow> 'u \<times> RequestInit"

record StreamableHTTPClientTransportOptions =
  http_requestInit :: RequestInit

text \<open>The three SDK transports, each with the arguments of its constructor.\<close>

datatype 'u Transport =
    StdioClientTransport StdioServerParameters
  | SSEClientTransport 'u "'u SSEClientTransportOptions option"
  | StreamableHTTPClientTransport 'u "StreamableHTTPClientTransportOptions option"

record Client =
  clientInfo_name :: string
  clientInfo_version :: string
  capabilities :: "(string \<times> (string \<times> bool) list) list"

definition new_Client :: Client where
  "new_Client =
     \<lparr>clientInfo_name = ''metamcp-client'', clientInfo_version = ''2.0.0'',
      capabilities = [(''prompts'', []), (''resources'', [(''subscribe'', True)]), (''tools'', [])]\<rparr>"

record 'u created =
  client :: "Client option"
  transport :: "'u Transport option"

datatype error = TypeError

text \<open>Lines 109 to 122: the client is built after the transport and both are returned.\<close>

definition with_client :: "'u Transport \<Rightarrow> 'u created" where
  "with_client t = \<lparr>client = Some new_Client, transport = Some t\<rparr>"

definition spread_headers :: "RequestInit option \<Rightarrow> (string \<rightharpoonup> string) \<Rightarrow> RequestInit" where
  "spread_headers init headers =
     (case init of None \<Rightarrow> Map.empty | Some i \<Rightarrow> i)(''headers'' \<mapsto> Headers headers)"

text \<open>
  \<open>new_URL\<close> is the platform's \<^verbatim>\<open>URL\<close> constructor: \<open>None\<close> when it throws its
  \<^verbatim>\<open>TypeError\<close>, which nothing in the function catches. \<open>flag\<close> is the environment
  variable read by \<open>transformDockerUrl\<close>. The result is what the function returns or
  throws, with the console lines written until then.
\<close>

definition createMetaMcpClient ::
  "(string \<Rightarrow> 'u option) \<Rightarrow> string option \<Rightarrow> ServerParameters
     \<Rightarrow> (error + 'u created) \<times> string list" where
  "createMetaMcpClient new_URL flag serverParams =
     (if \<not> truthy (type serverParams) \<or> type serverParams = Some ''STDIO'' then
        (let stdioParams =
               \<lparr>stdio_command = (if truthy (command serverParams)
                                  then the (command serverParams) else []),
                stdio_args = args serverParams,
                stdio_env = env serverParams,
                stdio_stderr = ''ignore''\<rparr>
         in (Inr (with_client (StdioClientTransport stdioParams)), []))
      else if type serverParams = Some ''SSE'' \<and> truthy (url serverParams) then
        (let (transformedUrl, line1) = transformDockerUrl flag (the (url serverParams));
             out = line1 @ [''Creating SSE transport for: '' @ transformedUrl]
         in case new_URL transformedUrl of
              None \<Rightarrow> (Inl TypeError, out)
            | Some u \<Rightarrow>
               (case oauth_tokens serverParams of
                  None \<Rightarrow> (Inr (with_client (SSEClientTransport u None)), out)
                | Some tokens \<Rightarrow>
                   (let headers = [''Authorization'' \<mapsto> ''Bearer '' @ access_token tokens]
                    in (Inr (with_client (SSEClientTransport u (Some
                          \<lparr>sse_requestInit = [''headers'' \<mapsto> Headers headers],
                           eventSourceInit_fetch =
                             (\<lambda>url init. (url, spread_headers init headers))\<rparr>))),
                        out))))
      else if type serverParams = Some ''STREAMABLE_HTTP'' \<and> truthy (url serverParams) then
        (let (transformedUrl, line1) = transformDockerUrl flag (the (url serverParams));
             out = line1 @ [''Creating StreamableHTTP transport for: '' @ transformedUrl]
         in case new_URL transformedUrl of
              None \<Rightarrow> (Inl TypeError, out)
            | Some u \<Rightarrow>
               (case oauth_tokens serverParams of
                  None \<Rightarrow> (Inr (with_client (StreamableHTTPClientTransport u None)), out)
                | Some tokens \<Rightarrow>
                   (let headers = [''Authorization'' \<mapsto> ''Bearer '' @ access_token tokens]
                    in (Inr (with_client (StreamableHTTPClientTransport u (Some
                          \<lparr>http_requestInit = [''headers'' \<mapsto> Headers headers]\<rparr>))),
                        out))))
      else
        (Inr \<lparr>client = None, transport = None\<rparr>,
         [''Unsupported server type: '' @ the (type serverParams)]))"

text \<open>
  A \<^verbatim>\<open>URL\<close> constructor for concrete evaluation. The platform's parser, called without
  a base, rejects every string that has no scheme, so at least every string without a
  colon; this one rejects exactly those and represents a parsed URL by its text.
\<close>

definition URL_needs_colon :: "string \<Rightarrow> string option" where
  "URL_needs_colon s = (if CHR '':'' \<in> set s then Some s else None)"

subsection \<open>Connection establisher\<close>

text \<open>
  The protocol client, the transport and the timer are external. A \<open>world\<close> scripts the
  outcome of the \<open>n\<close>-th call of \<^verbatim>\<open>client.connect\<close>, \<^verbatim>\<open>client.close\<close> and
  \<^verbatim>\<open>transport.close\<close> (\<open>None\<close>: the promise resolves; \<open>Some e\<close>: it rejects with an
  error whose text is \<open>e\<close>) and records every call made, oldest first. Every awaited
  promise is taken to settle.
\<close>

datatype ('c, 't) event =
    Connect 'c 't
  | ClientClose 'c
  | TransportClose 't
  | Sleep nat
  | ConsoleError string

record ('c, 't) world =
  connect_outcome :: "nat \<Rightarrow> string option"
  client_close_outcome :: "nat \<Rightarrow> string option"
  transport_close_outcome :: "nat \<Rightarrow> string option"
  calls :: "('c, 't) event list"

definition call_count :: "(('c, 't) event \<Rightarrow> bool) \<Rightarrow> ('c, 't) world \<Rightarrow> nat" where
  "call_count p w = length (filter p (calls w))"

fun is_Connect :: "('c, 't) event \<Rightarrow> bool" where
  "is_Connect (Connect c t) = True"
| "is_Connect e = False"

fun is_ClientClose :: "('c, 't) event \<Rightarrow> bool" where
  "is_ClientClose (ClientClose c) = True"
| "is_ClientClose e = False"

fun is_TransportClose :: "('c, 't) event \<Rightarrow> bool" where
  "is_TransportClose (TransportClose t) = True"
| "is_TransportClose e = False"

definition client_connect ::
  "'c \<Rightarrow> 't \<Rightarrow> ('c, 't) world \<Rightarrow> string option \<times> ('c, 't) world" where
  "client_connect c t w =
     (connect_outcome w (call_count is_Connect w),
      w\<lparr>calls := calls w @ [Connect c t]\<rparr>)"

definition client_close :: "'c \<Rightarrow> ('c, 't) world \<Rightarrow> string option \<times> ('c, 't) world" where
  "client_close c w =
     (client_close_outcome w (call_count is_ClientClose w),
      w\<lparr>calls := calls w @ [ClientClose c]\<rparr>)"

definition transport_close :: "'t \<Rightarrow> ('c, 't) world \<Rightarrow> string option \<times> ('c, 't) world" where
  "transport_close t w =
     (transport_close_outcome w (call_count is_TransportClose w),
      w\<lparr>calls := calls w @ [TransportClose t]\<rparr>)"

definition sleep :: "nat \<Rightarrow> ('c, 't) world \<Rightarrow> ('c, 't) world" where
  "sleep time w = w\<lparr>calls := calls w @ [Sleep time]\<rparr>"

definition console_error :: "string \<Rightarrow> ('c, 't) world \<Rightarrow> ('c, 't) world" where
  "console_error line w = w\<lparr>calls := calls w @ [ConsoleError line]\<rparr>"

text \<open>
  The handle. \<open>cleanup\<close> is the closure of lines 140 to 143: a rejected
  \<^verbatim>\<open>transport.close()\<close> ends it with that error before \<^verbatim>\<open>client.close()\<close> is reached.
\<close>

record ('c, 't) ConnectedClient =
  cc_client :: 'c
  cleanup :: "('c, 't) world \<Rightarrow> string option \<times> ('c, 't) world"

definition cleanup_closure ::
  "'c \<Rightarrow> 't \<Rightarrow> ('c, 't) world \<Rightarrow> string option \<times> ('c, 't) world" where
  "cleanup_closure c t w =
     (case transport_close t w of
        (Some e, w1) \<Rightarrow> (Some e, w1)
      | (None, w1) \<Rightarrow> client_close c w1)"

definition waitFor :: nat where
  "waitFor = 2500"

definition retries :: nat where
  "retries = 3"

text \<open>
  The \<^verbatim>\<open>while (retry)\<close> loop, entered with the current \<open>count\<close>. The error of a rejected
  \<^verbatim>\<open>client.close()\<close> is dropped by the inner \<^verbatim>\<open>catch\<close>. Leaving the loop with
  \<open>retry = false\<close> returns \<^verbatim>\<open>undefined\<close>.
\<close>

function connect_loop ::
  "'c \<Rightarrow> 't \<Rightarrow> nat \<Rightarrow> ('c, 't) world \<Rightarrow> ('c, 't) ConnectedClient option \<times> ('c, 't) world" where
  "connect_loop c t count w =
     (case fst (client_connect c t w) of
        None \<Rightarrow>
          (Some \<lparr>cc_client = c, cleanup = cleanup_closure c t\<rparr>, snd (client_connect c t w))
      | Some err \<Rightarrow>
          (let w1 = console_error (''Error connecting to MetaMCP client: '' @ err)
                      (snd (client_connect c t w))
           in if count + 1 < retries
              then connect_loop c t (count + 1)
                     (sleep waitFor (snd (client_close c w1)))
              else (None, w1)))"
  by pat_completeness auto
termination
  by (relation "measure (\<lambda>(c, t, count, w). retries - count)") auto

definition connectMetaMcpClient ::
  "'c \<Rightarrow> 't \<Rightarrow> ('c, 't) world \<Rightarrow> ('c, 't) ConnectedClient option \<times> ('c, 't) world" where
  "connectMetaMcpClient c t w = connect_loop c t 0 w"

subsection \<open>Observations and fixtures\<close>

text \<open>
  What a constructed transport was given as \<^verbatim>\<open>requestInit\<close> and as
  \<^verbatim>\<open>eventSourceInit.fetch\<close>; \<open>None\<close> when the constructor got no such option.
\<close>

fun configured_requestInit :: "'u Transport \<Rightarrow> RequestInit option" where
  "configured_requestInit (StdioClientTransport p) = None"
| "configured_requestInit (SSEClientTransport u opts) = map_option sse_requestInit opts"
| "configured_requestInit (StreamableHTTPClientTransport u opts) =
     map_option http_requestInit opts"

fun configured_fetch ::
  "'u Transport \<Rightarrow> ('u \<Rightarrow> RequestInit option \<Rightarrow> 'u \<times> RequestInit) option" where
  "configured_fetch (SSEClientTransport u opts) = map_option eventSourceInit_fetch opts"
| "configured_fetch t = None"

text \<open>
  The HTTP requests are issued by the SDK transports, which are not part of this
  repository; what they do with their options is a parameter. \<open>issued tr\<close> is the set
  of calls of the global \<^verbatim>\<open>fetch\<close> (target and \<^verbatim>\<open>init\<close>) that a transport constructed as
  \<open>tr\<close> makes. An SDK honours its options when every such call of a transport that was
  given options is made by its \<^verbatim>\<open>eventSourceInit.fetch\<close>, or carries every header of its
  \<^verbatim>\<open>requestInit\<close>. \<open>header_of init k\<close> is the header \<open>k\<close> of a request.
\<close>

definition header_of :: "RequestInit \<Rightarrow> string \<Rightarrow> string option" where
  "header_of init k = (case init ''headers'' of Some (Headers hs) \<Rightarrow> hs k | _ \<Rightarrow> None)"

definition honours_options :: "('u Transport \<Rightarrow> ('u \<times> RequestInit) set) \<Rightarrow> bool" where
  "honours_options issued \<longleftrightarrow>
     (\<forall>tr req. req \<in> issued tr \<longrightarrow>
        (\<exists>f target init. configured_fetch tr = Some f \<and> req = f target init) \<or>
        (\<exists>ri. configured_requestInit tr = Some ri \<and>
           (\<forall>k v. header_of ri k = Some v \<longrightarrow> header_of (snd req) k = Some v)) \<or>
        (configured_requestInit tr = None \<and> configured_fetch tr = None))"

text \<open>
  An SDK for concrete evaluation: the event stream is fetched through the configured
  \<^verbatim>\<open>fetch\<close> with the \<^verbatim>\<open>init\<close> of the event source, and the other requests are built on
  \<^verbatim>\<open>requestInit\<close>.
\<close>

definition sample_sdk :: "string Transport \<Rightarrow> (string \<times> RequestInit) set" where
  "sample_sdk tr =
     (case tr of
        StdioClientTransport p \<Rightarrow> {}
      | SSEClientTransport u opts \<Rightarrow>
          (case opts of
             None \<Rightarrow> {(u, Map.empty), (u, [''method'' \<mapsto> Other ''POST''])}
           | Some opt \<Rightarrow>
              {eventSourceInit_fetch opt u
                 (Some [''headers'' \<mapsto> Headers [''Accept'' \<mapsto> ''text/event-stream'']]),
               (u, (sse_requestInit opt)(''method'' \<mapsto> Other ''POST''))})
      | StreamableHTTPClientTransport u opts \<Rightarrow>
          (case opts of
             None \<Rightarrow> {(u, [''method'' \<mapsto> Other ''POST''])}
           | Some opt \<Rightarrow>
              {(u, (http_requestInit opt)(''method'' \<mapsto> Other ''POST'')),
               (u, (http_requestInit opt)(''method'' \<mapsto> Other ''GET''))}))"

text \<open>The example scenario of the specification, used as a concrete input.\<close>

definition sse_params :: ServerParameters where
  "sse_params =
     \<lparr>name = ''upstream'', type = Some ''SSE'', command = None, args = None, env = None,
      url = Some ''http://localhost:3000/mcp'',
      oauth_tokens = Some \<lparr>access_token = ''tok123''\<rparr>\<rparr>"

text \<open>
  Worlds used as concrete inputs: in \<open>scripted_world k\<close> the first \<open>k\<close> calls of
  \<^verbatim>\<open>client.connect\<close> reject and the later ones resolve, and every close resolves; in
  \<open>close_failing_world k\<close> every \<^verbatim>\<open>client.close\<close> rejects as well; in
  \<open>transport_close_failing_world\<close> every \<^verbatim>\<open>transport.close\<close> rejects.
\<close>

definition scripted_world :: "nat \<Rightarrow> (string, string) world" where
  "scripted_world k =
     \<lparr>connect_outcome = (\<lambda>n. if n < k then Some ''Error: connect ECONNREFUSED'' else None),
      client_close_outcome = (\<lambda>n. None),
      transport_close_outcome = (\<lambda>n. None),
      calls = []\<rparr>"

definition close_failing_world :: "nat \<Rightarrow> (string, string) world" where
  "close_failing_world k =
     (scripted_world k)\<lparr>client_close_outcome := (\<lambda>n. Some ''Error: Not connected'')\<rparr>"

definition transport_close_failing_world :: "(string, string) world" where
  "transport_close_failing_world =
     (scripted_world 0)\<lparr>transport_close_outcome := (\<lambda>n. Some ''Error: kill EPERM'')\<rparr>"

section \<open>Properties of the address normalizer\<close>

lemma loopback_match_Nil [simp]: "\<not> loopback_match []"
  by (simp add: loopback_match_def)

lemma loopback_match_sublist:
  "loopback_match s \<Longrightarrow> sublist ''localhost'' s \<or> sublist ''127.0.0.1'' s"
  unfolding loopback_match_def using prefix_imp_sublist by blast

lemma loopback_match_split:
  "loopback_match s \<Longrightarrow> s = ''localhost'' @ drop 9 s \<or> s = ''127.0.0.1'' @ drop 9 s"
  by (auto simp: loopback_match_def prefix_def)

lemma replace_localhost_match:
  "loopback_match s \<Longrightarrow>
   replace_localhost s = ''host.docker.internal'' @ replace_localhost (drop 9 s)"
  by (cases s) simp_all

text \<open>
  Until the first match the scan copies its input, and a match puts an \<open>h\<close> into the
  output: a prefix of the output without \<open>h\<close> is a prefix of the input, copied.
\<close>

lemma replace_localhost_copied:
  "CHR ''h'' \<notin> set q \<Longrightarrow> prefix q (replace_localhost s) \<Longrightarrow>
   \<exists>r. s = q @ r \<and> replace_localhost s = q @ replace_localhost r"
proof (induction s arbitrary: q rule: replace_localhost.induct)
  case 1
  then show ?case by simp
next
  case (2 c cs)
  show ?case
  proof (cases q)
    case Nil
    then show ?thesis by simp
  next
    case (Cons a q')
    show ?thesis
    proof (cases "loopback_match (c # cs)")
      case True
      with "2.prems" Cons show ?thesis by auto
    next
      case False
      with "2.prems" Cons have "a = c" and "CHR ''h'' \<notin> set q'"
        and "prefix q' (replace_localhost cs)" by auto
      with "2.IH"(2)[OF False] obtain r where "cs = q' @ r"
        and "replace_localhost cs = q' @ replace_localhost r" by blast
      with False Cons \<open>a = c\<close> show ?thesis by auto
    qed
  qed
qed

lemma sublist_of_drop: "sublist p (drop n s) \<Longrightarrow> sublist p s"
  using sublist_drop sublist_order.order_trans by blast

lemma docker_host_no_ip:
  "sublist ''127.0.0.1'' (''host.docker.internal'' @ r) \<longleftrightarrow> sublist ''127.0.0.1'' r"
  by (simp add: sublist_Cons_right)

lemma docker_host_localhost:
  "sublist ''localhost'' (''host.docker.internal'' @ r) \<longleftrightarrow>
     prefix ''ocalhost'' r \<or> sublist ''localhost'' r"
  by (simp add: sublist_Cons_right)

lemma replace_localhost_no_ip: "\<not> sublist ''127.0.0.1'' (replace_localhost s)"
proof (induction s rule: replace_localhost.induct)
  case 1
  then show ?case by simp
next
  case (2 c cs)
  show ?case
  proof (cases "loopback_match (c # cs)")
    case True
    with "2.IH"(1) docker_host_no_ip[of "replace_localhost (drop 8 cs)"]
    show ?thesis by simp
  next
    case False
    have "\<not> prefix ''127.0.0.1'' (c # replace_localhost cs)"
    proof
      assume "prefix ''127.0.0.1'' (c # replace_localhost cs)"
      then have c: "c = CHR ''1''" and "prefix ''27.0.0.1'' (replace_localhost cs)" by auto
      from replace_localhost_copied[OF _ this(2)] have "prefix ''27.0.0.1'' cs" by auto
      with c have "loopback_match (c # cs)" unfolding loopback_match_def by simp
      with False show False by blast
    qed
    with "2.IH"(2) False show ?thesis by (simp add: sublist_Cons_right)
  qed
qed

text \<open>
  \<open>localhost\<close> can only reappear where the replacement meets its neighbours:
  \<open>local\<close> before a match (the replacement starts with \<open>host\<close>) or \<open>ocal\<close> behind
  one (it ends with \<open>l\<close>).
\<close>

lemma replace_localhost_no_localhost:
  assumes "\<not> sublist ''locallocalhost'' s" and "\<not> sublist ''local127.0.0.1'' s"
    and "\<not> sublist ''localhostocal'' s" and "\<not> sublist ''127.0.0.1ocal'' s"
  shows "\<not> sublist ''localhost'' (replace_localhost s)"
  using assms
proof (induction s rule: replace_localhost.induct)
  case 1
  then show ?case by simp
next
  case (2 c cs)
  show ?case
  proof (cases "loopback_match (c # cs)")
    case True
    let ?rest = "drop 8 cs"
    have rest: "sublist p ?rest \<Longrightarrow> sublist p (c # cs)" for p
      using sublist_of_drop[of p 9 "c # cs"] by simp
    from "2.prems" rest have ih: "\<not> sublist ''localhost'' (replace_localhost ?rest)"
      by (intro "2.IH"(1)[OF True]) blast+
    have "\<not> prefix ''ocalhost'' (replace_localhost ?rest)"
    proof
      assume "prefix ''ocalhost'' (replace_localhost ?rest)"
      then have "prefix ''ocal'' (replace_localhost ?rest)"
        using append_prefixD[of "''ocal''" "''host''"] by simp
      from replace_localhost_copied[OF _ this] obtain r where r: "?rest = ''ocal'' @ r"
        by auto
      from loopback_match_split[OF True]
      have "c # cs = ''localhost'' @ ?rest \<or> c # cs = ''127.0.0.1'' @ ?rest" by simp
      with r have "c # cs = ''localhostocal'' @ r \<or> c # cs = ''127.0.0.1ocal'' @ r"
        by auto
      then have "sublist ''localhostocal'' (c # cs) \<or> sublist ''127.0.0.1ocal'' (c # cs)"
        using sublist_append_rightI by metis
      with "2.prems" show False by blast
    qed
    with ih True docker_host_localhost[of "replace_localhost ?rest"]
    show ?thesis by simp
  next
    case False
    from "2.prems" have ih: "\<not> sublist ''localhost'' (replace_localhost cs)"
      by (intro "2.IH"(2)[OF False]) (auto simp: sublist_Cons_right)
    have "\<not> prefix ''localhost'' (c # replace_localhost cs)"
    proof
      assume a: "prefix ''localhost'' (c # replace_localhost cs)"
      then have c: "c = CHR ''l''" and "prefix ''ocal'' (replace_localhost cs)"
        using append_prefixD[of "''ocal''" "''host''"] by auto
      from replace_localhost_copied[OF _ this(2)] obtain r where r: "cs = ''ocal'' @ r"
        and rr: "replace_localhost cs = ''ocal'' @ replace_localhost r" by auto
      from a rr have h: "prefix ''host'' (replace_localhost r)" by auto
      show False
      proof (cases "loopback_match r")
        case True
        from loopback_match_split[OF this] c r
        have "c # cs = ''locallocalhost'' @ drop 9 r \<or> c # cs = ''local127.0.0.1'' @ drop 9 r"
          by auto
        then have "sublist ''locallocalhost'' (c # cs) \<or> sublist ''local127.0.0.1'' (c # cs)"
          using sublist_append_rightI by metis
        with "2.prems" show False by blast
      next
        case nm: False
        with h obtain r' where r': "r = CHR ''h'' # r'"
          and "prefix ''ost'' (replace_localhost r')"
          by (cases r) auto
        from replace_localhost_copied[OF _ this(2)] have "prefix ''ost'' r'" by auto
        with c r r' have "prefix ''localhost'' (c # cs)" by auto
        then have "loopback_match (c # cs)" unfolding loopback_match_def by blast
        with False show False by blast
      qed
    qed
    with ih False show ?thesis by (simp add: sublist_Cons_right)
  qed
qed

lemma replace_localhost_unchanged:
  "\<not> sublist ''localhost'' s \<Longrightarrow> \<not> sublist ''127.0.0.1'' s \<Longrightarrow> replace_localhost s = s"
proof (induction s rule: replace_localhost.induct)
  case 1
  then show ?case by simp
next
  case (2 c cs)
  from "2.prems" loopback_match_sublist have "\<not> loopback_match (c # cs)" by blast
  with 2 show ?case by (simp add: sublist_Cons_right)
qed

lemma prefix_within: "prefix a (x @ y) \<Longrightarrow> length a \<le> length x \<Longrightarrow> prefix a x"
  using prefix_length_prefix[of a "x @ y" x] by simp

text \<open>A literal in host position, with no occurrence starting before it.\<close>

lemma replace_localhost_host:
  assumes "h = ''localhost'' \<or> h = ''127.0.0.1''"
    and "\<not> sublist ''localhost'' (p @ butlast h)"
    and "\<not> sublist ''127.0.0.1'' (p @ butlast h)"
  shows "replace_localhost (p @ h @ s) = p @ ''host.docker.internal'' @ replace_localhost s"
  using assms(2,3)
proof (induction p)
  case Nil
  from assms(1) have "loopback_match (h @ s)" and "length h = 9"
    by (auto simp: loopback_match_def)
  then show ?case using replace_localhost_match[of "h @ s"] by simp
next
  case (Cons c p)
  have len: "9 \<le> length ((c # p) @ butlast h)" using assms(1) by auto
  have split: "(c # p) @ h @ s = ((c # p) @ butlast h) @ (last h # s)"
    using assms(1) by auto
  have "\<not> loopback_match ((c # p) @ h @ s)"
  proof
    assume "loopback_match ((c # p) @ h @ s)"
    then have "prefix ''localhost'' (((c # p) @ butlast h) @ (last h # s)) \<or>
               prefix ''127.0.0.1'' (((c # p) @ butlast h) @ (last h # s))"
      unfolding split loopback_match_def .
    with len have "prefix ''localhost'' ((c # p) @ butlast h) \<or>
               prefix ''127.0.0.1'' ((c # p) @ butlast h)"
      using prefix_within[of _ "(c # p) @ butlast h" "last h # s"] by fastforce
    with Cons.prems show False using prefix_imp_sublist by blast
  qed
  moreover from Cons.prems have "\<not> sublist ''localhost'' (p @ butlast h)"
    and "\<not> sublist ''127.0.0.1'' (p @ butlast h)"
    by (auto simp: sublist_Cons_right)
  ultimately show ?case using Cons.IH by simp
qed

lemma transformDockerUrl_fst:
  "fst (transformDockerUrl flag u) = (if flag = Some ''true'' then replace_localhost u else u)"
  by (simp add: transformDockerUrl_def Let_def)

lemma transformDockerUrl_true:
  "fst (transformDockerUrl (Some ''true'') u) = replace_localhost u"
  by (simp add: transformDockerUrl_fst)

text \<open>
  C10. \<open>transformDockerUrl\<close> rewrites only when the environment variable compares equal
  to the exact string \<open>true\<close>: for every other value, among them \<open>TRUE\<close>, \<open>1\<close> and
  the unset variable, every URL is returned unchanged.
\<close>

theorem transformDockerUrl_only_true:
  "(flag \<noteq> Some ''true'' \<longrightarrow> fst (transformDockerUrl flag u) = u) \<and>
   fst (transformDockerUrl (Some ''TRUE'') u) = u \<and>
   fst (transformDockerUrl (Some ''1'') u) = u \<and>
   fst (transformDockerUrl None u) = u \<and>
   fst (transformDockerUrl (Some ''true'') u) = replace_localhost u"
  by (simp add: transformDockerUrl_fst)

theorem transformDockerUrl_only_true_witness:
  "Some ''True'' \<noteq> Some ''true'' \<and>
   fst (transformDockerUrl (Some ''True'') ''http://localhost:3000/mcp'') =
     ''http://localhost:3000/mcp'' \<and>
   fst (transformDockerUrl (Some ''true'') ''http://localhost:3000/mcp'') =
     ''http://host.docker.internal:3000/mcp''"
  using transformDockerUrl_only_true[of "Some ''True''" "''http://localhost:3000/mcp''"]
  by (simp add: loopback_match_def)

text \<open>
  A string with an occurrence splits at the first one, and the two facts "unchanged
  without a literal" and "first literal replaced, rest rewritten" determine the scan.
\<close>

lemma first_occurrence:
  "sublist ''localhost'' u \<or> sublist ''127.0.0.1'' u \<Longrightarrow>
   \<exists>p h s. u = p @ h @ s \<and> (h = ''localhost'' \<or> h = ''127.0.0.1'') \<and>
     \<not> sublist ''localhost'' (p @ butlast h) \<and> \<not> sublist ''127.0.0.1'' (p @ butlast h)"
proof (induction u)
  case Nil
  then show ?case by simp
next
  case (Cons c cs)
  show ?case
  proof (cases "loopback_match (c # cs)")
    case True
    from loopback_match_split[OF True] consider
      (lh) "c # cs = [] @ ''localhost'' @ drop 9 (c # cs)"
      | (ip) "c # cs = [] @ ''127.0.0.1'' @ drop 9 (c # cs)"
      by auto
    then show ?thesis
    proof cases
      case lh
      moreover have "\<not> sublist ''localhost'' ([] @ butlast ''localhost'')"
        and "\<not> sublist ''127.0.0.1'' ([] @ butlast ''localhost'')"
        by (simp_all add: sublist_Cons_right)
      ultimately show ?thesis by blast
    next
      case ip
      moreover have "\<not> sublist ''localhost'' ([] @ butlast ''127.0.0.1'')"
        and "\<not> sublist ''127.0.0.1'' ([] @ butlast ''127.0.0.1'')"
        by (simp_all add: sublist_Cons_right)
      ultimately show ?thesis by blast
    qed
  next
    case False
    then have np: "\<not> prefix ''localhost'' (c # cs)" "\<not> prefix ''127.0.0.1'' (c # cs)"
      unfolding loopback_match_def by blast+
    with Cons.prems have "sublist ''localhost'' cs \<or> sublist ''127.0.0.1'' cs"
      unfolding sublist_Cons_right by blast
    from Cons.IH[OF this] obtain p h s where u: "cs = p @ h @ s"
      and h: "h = ''localhost'' \<or> h = ''127.0.0.1''"
      and n1: "\<not> sublist ''localhost'' (p @ butlast h)"
      and n2: "\<not> sublist ''127.0.0.1'' (p @ butlast h)" by blast
    from h have hs: "h = butlast h @ [last h]" by auto
    have pre: "prefix (c # p @ butlast h) (c # cs)"
    proof -
      have "c # cs = (c # p @ butlast h) @ (last h # s)" using u hs by simp
      then show ?thesis using prefixI by blast
    qed
    have "\<not> prefix q (c # p @ butlast h)" if "\<not> prefix q (c # cs)" for q
      using that pre prefix_order.trans by blast
    with np have "\<not> prefix ''localhost'' (c # p @ butlast h)"
      and "\<not> prefix ''127.0.0.1'' (c # p @ butlast h)" by blast+
    with n1 n2 have "\<not> sublist ''localhost'' ((c # p) @ butlast h)"
      and "\<not> sublist ''127.0.0.1'' ((c # p) @ butlast h)"
      by (simp_all only: append_Cons sublist_Cons_right) blast+
    moreover have "c # cs = (c # p) @ h @ s" using u by simp
    ultimately show ?thesis using h by blast
  qed
qed

lemma replace_localhost_determined:
  assumes keep: "\<And>v. \<not> sublist ''localhost'' v \<Longrightarrow> \<not> sublist ''127.0.0.1'' v \<Longrightarrow> f v = v"
    and step: "\<And>h p s. h = ''localhost'' \<or> h = ''127.0.0.1'' \<Longrightarrow>
      \<not> sublist ''localhost'' (p @ butlast h) \<Longrightarrow> \<not> sublist ''127.0.0.1'' (p @ butlast h) \<Longrightarrow>
      f (p @ h @ s) = p @ ''host.docker.internal'' @ f s"
  shows "f u = replace_localhost u"
proof (induction "length u" arbitrary: u rule: less_induct)
  case less
  show ?case
  proof (cases "sublist ''localhost'' u \<or> sublist ''127.0.0.1'' u")
    case False
    then show ?thesis using keep[of u] replace_localhost_unchanged[of u] by simp
  next
    case True
    from first_occurrence[OF True] obtain p h s where u: "u = p @ h @ s"
      and h: "h = ''localhost'' \<or> h = ''127.0.0.1''"
      and n1: "\<not> sublist ''localhost'' (p @ butlast h)"
      and n2: "\<not> sublist ''127.0.0.1'' (p @ butlast h)" by blast
    from h have "length h = 9" by auto
    with u have "length s < length u" by simp
    then have "f s = replace_localhost s" by (rule less)
    with step[OF h n1 n2, of s] replace_localhost_host[OF h n1 n2, of s] u
    show ?thesis by simp
  qed
qed

text \<open>
  C2, as amended. With the flag \<open>true\<close> the replacement is textual, runs from left to
  right and applies to the whole string, path and query included. A string without a
  literal is returned unchanged. Where a literal \<open>h\<close> has no occurrence starting before
  it, the text \<open>p\<close> before it is kept, \<open>h\<close> becomes \<open>host.docker.internal\<close> and the
  rest \<open>s\<close> is rewritten in the same way; every function with these two properties
  is this one, so every occurrence met by the scan is replaced and nothing else changes. The
  output never contains \<open>127.0.0.1\<close>. It contains no \<open>localhost\<close> provided the input
  has no \<open>local\<close> directly before, and no \<open>ocal\<close> directly behind, an occurrence of a
  literal. With any other flag the output is the input.
\<close>

theorem transformDockerUrl_rewrite:
  "(flag \<noteq> Some ''true'' \<longrightarrow> fst (transformDockerUrl flag u) = u) \<and>
   (\<not> sublist ''localhost'' u \<and> \<not> sublist ''127.0.0.1'' u \<longrightarrow>
      fst (transformDockerUrl (Some ''true'') u) = u) \<and>
   ((h = ''localhost'' \<or> h = ''127.0.0.1'') \<and>
    \<not> sublist ''localhost'' (p @ butlast h) \<and> \<not> sublist ''127.0.0.1'' (p @ butlast h) \<longrightarrow>
      fst (transformDockerUrl (Some ''true'') (p @ h @ s)) =
        p @ ''host.docker.internal'' @ fst (transformDockerUrl (Some ''true'') s)) \<and>
   \<not> sublist ''127.0.0.1'' (fst (transformDockerUrl (Some ''true'') u)) \<and>
   (\<not> sublist ''locallocalhost'' u \<and> \<not> sublist ''local127.0.0.1'' u \<and>
    \<not> sublist ''localhostocal'' u \<and> \<not> sublist ''127.0.0.1ocal'' u \<longrightarrow>
      \<not> sublist ''localhost'' (fst (transformDockerUrl (Some ''true'') u))) \<and>
   ((\<forall>v. \<not> sublist ''localhost'' v \<and> \<not> sublist ''127.0.0.1'' v \<longrightarrow> f v = v) \<and>
    (\<forall>h p s. (h = ''localhost'' \<or> h = ''127.0.0.1'') \<and>
       \<not> sublist ''localhost'' (p @ butlast h) \<and> \<not> sublist ''127.0.0.1'' (p @ butlast h) \<longrightarrow>
         f (p @ h @ s) = p @ ''host.docker.internal'' @ f s) \<longrightarrow>
      f u = fst (transformDockerUrl (Some ''true'') u))"
proof (intro conjI impI)
  assume "flag \<noteq> Some ''true''"
  then show "fst (transformDockerUrl flag u) = u"
    by (simp add: transformDockerUrl_fst)
next
  assume "\<not> sublist ''localhost'' u \<and> \<not> sublist ''127.0.0.1'' u"
  then have "replace_localhost u = u"
    using replace_localhost_unchanged[of u] by blast
  then show "fst (transformDockerUrl (Some ''true'') u) = u"
    unfolding transformDockerUrl_true .
next
  assume "(h = ''localhost'' \<or> h = ''127.0.0.1'') \<and>
    \<not> sublist ''localhost'' (p @ butlast h) \<and> \<not> sublist ''127.0.0.1'' (p @ butlast h)"
  then have "replace_localhost (p @ h @ s) = p @ ''host.docker.internal'' @ replace_localhost s"
    using replace_localhost_host[of h p s] by blast
  then show "fst (transformDockerUrl (Some ''true'') (p @ h @ s)) =
      p @ ''host.docker.internal'' @ fst (transformDockerUrl (Some ''true'') s)"
    unfolding transformDockerUrl_true .
next
  show "\<not> sublist ''127.0.0.1'' (fst (transformDockerUrl (Some ''true'') u))"
    unfolding transformDockerUrl_true by (rule replace_localhost_no_ip)
next
  assume "\<not> sublist ''locallocalhost'' u \<and> \<not> sublist ''local127.0.0.1'' u \<and>
    \<not> sublist ''localhostocal'' u \<and> \<not> sublist ''127.0.0.1ocal'' u"
  then have "\<not> sublist ''localhost'' (replace_localhost u)"
    using replace_localhost_no_localhost[of u] by blast
  then show "\<not> sublist ''localhost'' (fst (transformDockerUrl (Some ''true'') u))"
    unfolding transformDockerUrl_true .
next
  assume a: "(\<forall>v. \<not> sublist ''localhost'' v \<and> \<not> sublist ''127.0.0.1'' v \<longrightarrow> f v = v) \<and>
    (\<forall>h p s. (h = ''localhost'' \<or> h = ''127.0.0.1'') \<and>
       \<not> sublist ''localhost'' (p @ butlast h) \<and> \<not> sublist ''127.0.0.1'' (p @ butlast h) \<longrightarrow>
         f (p @ h @ s) = p @ ''host.docker.internal'' @ f s)"
  have "f u = replace_localhost u"
  proof (rule replace_localhost_determined)
    fix v assume "\<not> sublist ''localhost'' v" "\<not> sublist ''127.0.0.1'' v"
    with a show "f v = v" by blast
  next
    fix h p s assume "h = ''localhost'' \<or> h = ''127.0.0.1''"
      "\<not> sublist ''localhost'' (p @ butlast h)" "\<not> sublist ''127.0.0.1'' (p @ butlast h)"
    with a show "f (p @ h @ s) = p @ ''host.docker.internal'' @ f s" by blast
  qed
  then show "f u = fst (transformDockerUrl (Some ''true'') u)"
    unfolding transformDockerUrl_true .
qed

theorem transformDockerUrl_rewrite_counterexample:
  "sublist ''localhost''
     (fst (transformDockerUrl (Some ''true'') ''http://locallocalhost:3000/mcp'')) \<and>
   fst (transformDockerUrl (Some ''true'') ''http://example.com/localhost?h=127.0.0.1'') =
     ''http://example.com/host.docker.internal?h=host.docker.internal''"
  by (simp add: transformDockerUrl_true loopback_match_def sublist_Cons_right)

theorem transformDockerUrl_rewrite_witness:
  "None \<noteq> Some ''true'' \<and>
   fst (transformDockerUrl None ''http://127.0.0.1:8080/a?next=localhost'') =
     ''http://127.0.0.1:8080/a?next=localhost'' \<and>
   \<not> sublist ''localhost'' ''http://example.com/'' \<and>
   \<not> sublist ''127.0.0.1'' ''http://example.com/'' \<and>
   fst (transformDockerUrl (Some ''true'') ''http://example.com/'') = ''http://example.com/'' \<and>
   \<not> sublist ''localhost'' (''http://'' @ butlast ''127.0.0.1'') \<and>
   \<not> sublist ''127.0.0.1'' (''http://'' @ butlast ''127.0.0.1'') \<and>
   \<not> sublist ''localhost'' ('':8080/a?next='' @ butlast ''localhost'') \<and>
   \<not> sublist ''127.0.0.1'' ('':8080/a?next='' @ butlast ''localhost'') \<and>
   fst (transformDockerUrl (Some ''true'') ''http://127.0.0.1:8080/a?next=localhost'') =
     ''http://host.docker.internal:8080/a?next=host.docker.internal'' \<and>
   \<not> sublist ''127.0.0.1''
     (fst (transformDockerUrl (Some ''true'') ''http://127.0.0.1:8080/a?next=localhost'')) \<and>
   \<not> sublist ''locallocalhost'' ''http://127.0.0.1:8080/a?next=localhost'' \<and>
   \<not> sublist ''local127.0.0.1'' ''http://127.0.0.1:8080/a?next=localhost'' \<and>
   \<not> sublist ''localhostocal'' ''http://127.0.0.1:8080/a?next=localhost'' \<and>
   \<not> sublist ''127.0.0.1ocal'' ''http://127.0.0.1:8080/a?next=localhost'' \<and>
   \<not> sublist ''localhost''
     (fst (transformDockerUrl (Some ''true'') ''http://127.0.0.1:8080/a?next=localhost'')) \<and>
   replace_localhost ''http://127.0.0.1:8080/a?next=localhost'' =
     fst (transformDockerUrl (Some ''true'') ''http://127.0.0.1:8080/a?next=localhost'')"
proof -
  let ?U = "''http://127.0.0.1:8080/a?next=localhost''"
  note transformDockerUrl_rewrite_at = transformDockerUrl_rewrite[where f = replace_localhost]
  have 7: "(\<forall>v. \<not> sublist ''localhost'' v \<and> \<not> sublist ''127.0.0.1'' v \<longrightarrow>
        replace_localhost v = v) \<and>
    (\<forall>h p s. (h = ''localhost'' \<or> h = ''127.0.0.1'') \<and>
       \<not> sublist ''localhost'' (p @ butlast h) \<and> \<not> sublist ''127.0.0.1'' (p @ butlast h) \<longrightarrow>
         replace_localhost (p @ h @ s) = p @ ''host.docker.internal'' @ replace_localhost s)"
    using replace_localhost_unchanged replace_localhost_host by blast
  have 1: "None \<noteq> Some ''true''" by simp
  have 2: "\<not> sublist ''localhost'' ''http://example.com/'' \<and>
           \<not> sublist ''127.0.0.1'' ''http://example.com/''"
    by (simp add: sublist_Cons_right)
  have 3: "(''127.0.0.1'' = ''localhost'' \<or> ''127.0.0.1'' = ''127.0.0.1'') \<and>
     \<not> sublist ''localhost'' (''http://'' @ butlast ''127.0.0.1'') \<and>
     \<not> sublist ''127.0.0.1'' (''http://'' @ butlast ''127.0.0.1'')"
    by (simp add: sublist_Cons_right)
  have 4: "(''localhost'' = ''localhost'' \<or> ''localhost'' = ''127.0.0.1'') \<and>
     \<not> sublist ''localhost'' ('':8080/a?next='' @ butlast ''localhost'') \<and>
     \<not> sublist ''127.0.0.1'' ('':8080/a?next='' @ butlast ''localhost'')"
    by (simp add: sublist_Cons_right)
  have 5: "\<not> sublist ''locallocalhost'' ?U \<and> \<not> sublist ''local127.0.0.1'' ?U \<and>
     \<not> sublist ''localhostocal'' ?U \<and> \<not> sublist ''127.0.0.1ocal'' ?U"
    by (simp add: sublist_Cons_right)
  have 6: "\<not> sublist ''localhost'' [] \<and> \<not> sublist ''127.0.0.1'' []" by simp
  from transformDockerUrl_rewrite_at[of None ?U] 1
  have a: "fst (transformDockerUrl None ?U) = ?U" by blast
  from transformDockerUrl_rewrite_at[of _ "''http://example.com/''"] 2
  have b: "fst (transformDockerUrl (Some ''true'') ''http://example.com/'') =
      ''http://example.com/''" by blast
  from transformDockerUrl_rewrite_at[of _ "[]"] 6
  have e0: "fst (transformDockerUrl (Some ''true'') []) = []" by blast
  from transformDockerUrl_rewrite_at[of _ _ "''localhost''" "'':8080/a?next=''" "[]"] 4
  have e1: "fst (transformDockerUrl (Some ''true'') ('':8080/a?next='' @ ''localhost'' @ [])) =
      '':8080/a?next='' @ ''host.docker.internal'' @ fst (transformDockerUrl (Some ''true'') [])"
    by blast
  from transformDockerUrl_rewrite_at[of _ _ "''127.0.0.1''" "''http://''"
      "'':8080/a?next=localhost''"] 3
  have e2: "fst (transformDockerUrl (Some ''true'')
        (''http://'' @ ''127.0.0.1'' @ '':8080/a?next=localhost'')) =
      ''http://'' @ ''host.docker.internal'' @
        fst (transformDockerUrl (Some ''true'') '':8080/a?next=localhost'')"
    by blast
  from e0 e1 e2 have c: "fst (transformDockerUrl (Some ''true'') ?U) =
     ''http://host.docker.internal:8080/a?next=host.docker.internal''"
    by simp
  from transformDockerUrl_rewrite_at[of _ ?U]
  have d: "\<not> sublist ''127.0.0.1'' (fst (transformDockerUrl (Some ''true'') ?U))" by blast
  from transformDockerUrl_rewrite_at[of _ ?U] 5
  have f: "\<not> sublist ''localhost'' (fst (transformDockerUrl (Some ''true'') ?U))" by blast
  from 3 have n3: "\<not> sublist ''localhost'' (''http://'' @ butlast ''127.0.0.1'') \<and>
     \<not> sublist ''127.0.0.1'' (''http://'' @ butlast ''127.0.0.1'')" by blast
  from 4 have n4: "\<not> sublist ''localhost'' ('':8080/a?next='' @ butlast ''localhost'') \<and>
     \<not> sublist ''127.0.0.1'' ('':8080/a?next='' @ butlast ''localhost'')" by blast
  from transformDockerUrl_rewrite_at[of _ ?U] 7
  have g: "replace_localhost ?U = fst (transformDockerUrl (Some ''true'') ?U)" by blast
  from 1 a 2 b n3 n4 c d 5 f g show ?thesis by blast
qed

section \<open>Properties of the transport factory\<close>

lemma createMetaMcpClient_stdio:
  "\<not> truthy (type sp) \<or> type sp = Some ''STDIO'' \<Longrightarrow>
   createMetaMcpClient new_URL flag sp =
     (Inr (with_client (StdioClientTransport
        \<lparr>stdio_command = (if truthy (command sp) then the (command sp) else []),
         stdio_args = args sp, stdio_env = env sp, stdio_stderr = ''ignore''\<rparr>)), [])"
  by (simp add: createMetaMcpClient_def Let_def)

lemma createMetaMcpClient_unsupported:
  "truthy (type sp) \<Longrightarrow> type sp \<noteq> Some ''STDIO'' \<Longrightarrow>
   \<not> ((type sp = Some ''SSE'' \<or> type sp = Some ''STREAMABLE_HTTP'') \<and> truthy (url sp)) \<Longrightarrow>
   createMetaMcpClient new_URL flag sp =
     (Inr \<lparr>client = None, transport = None\<rparr>,
      [''Unsupported server type: '' @ the (type sp)])"
  by (auto simp: createMetaMcpClient_def)

lemma createMetaMcpClient_sse:
  "type sp = Some ''SSE'' \<Longrightarrow> truthy (url sp) \<Longrightarrow>
   fst (createMetaMcpClient new_URL flag sp) =
     (case new_URL (fst (transformDockerUrl flag (the (url sp)))) of
        None \<Rightarrow> Inl TypeError
      | Some u \<Rightarrow>
         (case oauth_tokens sp of
            None \<Rightarrow> Inr (with_client (SSEClientTransport u None))
          | Some tokens \<Rightarrow>
              Inr (with_client (SSEClientTransport u (Some
                \<lparr>sse_requestInit =
                   [''headers'' \<mapsto> Headers [''Authorization'' \<mapsto> ''Bearer '' @ access_token tokens]],
                 eventSourceInit_fetch = (\<lambda>target init. (target, spread_headers init
                   [''Authorization'' \<mapsto> ''Bearer '' @ access_token tokens]))\<rparr>)))))"
  by (simp add: createMetaMcpClient_def Let_def truthy_def split: prod.splits option.splits)

lemma createMetaMcpClient_streamable:
  "type sp = Some ''STREAMABLE_HTTP'' \<Longrightarrow> truthy (url sp) \<Longrightarrow>
   fst (createMetaMcpClient new_URL flag sp) =
     (case new_URL (fst (transformDockerUrl flag (the (url sp)))) of
        None \<Rightarrow> Inl TypeError
      | Some u \<Rightarrow>
         (case oauth_tokens sp of
            None \<Rightarrow> Inr (with_client (StreamableHTTPClientTransport u None))
          | Some tokens \<Rightarrow>
              Inr (with_client (StreamableHTTPClientTransport u (Some
                \<lparr>http_requestInit =
                   [''headers'' \<mapsto> Headers [''Authorization'' \<mapsto> ''Bearer '' @ access_token tokens]]\<rparr>)))))"
  by (simp add: createMetaMcpClient_def Let_def truthy_def split: prod.splits option.splits)

lemma createMetaMcpClient_shape:
  "fst (createMetaMcpClient new_URL flag sp) = Inr r \<Longrightarrow>
   r = \<lparr>client = None, transport = None\<rparr> \<or> (\<exists>tr. r = with_client tr)"
proof (cases "\<not> truthy (type sp) \<or> type sp = Some ''STDIO''")
  case True
  assume "fst (createMetaMcpClient new_URL flag sp) = Inr r"
  with createMetaMcpClient_stdio[OF True, of new_URL flag] show ?thesis by auto
next
  case False
  assume r: "fst (createMetaMcpClient new_URL flag sp) = Inr r"
  consider (sse) "type sp = Some ''SSE''" "truthy (url sp)"
    | (http) "type sp = Some ''STREAMABLE_HTTP''" "truthy (url sp)"
    | (other) "\<not> ((type sp = Some ''SSE'' \<or> type sp = Some ''STREAMABLE_HTTP'') \<and> truthy (url sp))"
    by blast
  then show ?thesis
  proof cases
    case sse
    from createMetaMcpClient_sse[OF sse, of new_URL flag] r show ?thesis
      by (auto split: option.splits)
  next
    case http
    from createMetaMcpClient_streamable[OF http, of new_URL flag] r show ?thesis
      by (auto split: option.splits)
  next
    case other
    with False createMetaMcpClient_unsupported[of sp new_URL flag] r show ?thesis by auto
  qed
qed

text \<open>
  C3, as amended. \<open>createMetaMcpClient\<close> returns a pair, which is either the explicit
  no-transport result or a client with a constructed transport, unless the \<^verbatim>\<open>URL\<close>
  constructor throws: exactly when the type is \<open>SSE\<close> or \<open>STREAMABLE_HTTP\<close>, the
  url is not empty and the constructor rejects the (transformed) url, its
  \<^verbatim>\<open>TypeError\<close> leaves the function.
\<close>

theorem createMetaMcpClient_throws_iff:
  "(fst (createMetaMcpClient new_URL flag sp) = Inl TypeError \<longleftrightarrow>
      (type sp = Some ''SSE'' \<or> type sp = Some ''STREAMABLE_HTTP'') \<and> truthy (url sp) \<and>
      new_URL (fst (transformDockerUrl flag (the (url sp)))) = None) \<and>
   (\<forall>r. fst (createMetaMcpClient new_URL flag sp) = Inr r \<longrightarrow>
      r = \<lparr>client = None, transport = None\<rparr> \<or> (\<exists>tr. r = with_client tr))"
proof (intro conjI allI impI)
  show "fst (createMetaMcpClient new_URL flag sp) = Inl TypeError \<longleftrightarrow>
      (type sp = Some ''SSE'' \<or> type sp = Some ''STREAMABLE_HTTP'') \<and> truthy (url sp) \<and>
      new_URL (fst (transformDockerUrl flag (the (url sp)))) = None"
  proof (cases "\<not> truthy (type sp) \<or> type sp = Some ''STDIO''")
    case True
    with createMetaMcpClient_stdio[OF True, of new_URL flag] show ?thesis
      by (auto simp: truthy_def)
  next
    case False
    consider (sse) "type sp = Some ''SSE''" "truthy (url sp)"
      | (http) "type sp = Some ''STREAMABLE_HTTP''" "truthy (url sp)"
      | (other) "\<not> ((type sp = Some ''SSE'' \<or> type sp = Some ''STREAMABLE_HTTP'') \<and> truthy (url sp))"
      by blast
    then show ?thesis
    proof cases
      case sse
      from createMetaMcpClient_sse[OF sse, of new_URL flag] sse show ?thesis
        by (auto split: option.splits)
    next
      case http
      from createMetaMcpClient_streamable[OF http, of new_URL flag] http show ?thesis
        by (auto split: option.splits)
    next
      case other
      with False createMetaMcpClient_unsupported[of sp new_URL flag] show ?thesis by auto
    qed
  qed
next
  fix r assume "fst (createMetaMcpClient new_URL flag sp) = Inr r"
  then show "r = \<lparr>client = None, transport = None\<rparr> \<or> (\<exists>tr. r = with_client tr)"
    by (rule createMetaMcpClient_shape)
qed

theorem createMetaMcpClient_throws_iff_witness:
  "fst (createMetaMcpClient URL_needs_colon None
      \<lparr>name = ''upstream'', type = Some ''STREAMABLE_HTTP'', command = None, args = None,
       env = None, url = Some ''localhost/mcp'', oauth_tokens = None\<rparr>) = Inl TypeError \<and>
   fst (createMetaMcpClient URL_needs_colon None
      \<lparr>name = ''upstream'', type = Some ''STREAMABLE_HTTP'', command = None, args = None,
       env = None, url = Some ''http://localhost/mcp'', oauth_tokens = None\<rparr>) =
     Inr (with_client (StreamableHTTPClientTransport ''http://localhost/mcp'' None))"
proof -
  let ?bad = "\<lparr>name = ''upstream'', type = Some ''STREAMABLE_HTTP'', command = None,
       args = None, env = None, url = Some ''localhost/mcp'', oauth_tokens = None\<rparr>"
  have "(type ?bad = Some ''SSE'' \<or> type ?bad = Some ''STREAMABLE_HTTP'') \<and> truthy (url ?bad) \<and>
      URL_needs_colon (fst (transformDockerUrl None (the (url ?bad)))) = None"
    by (simp add: truthy_def URL_needs_colon_def transformDockerUrl_fst)
  with createMetaMcpClient_throws_iff[of URL_needs_colon None ?bad]
  have "fst (createMetaMcpClient URL_needs_colon None ?bad) = Inl TypeError" by blast
  moreover have "fst (createMetaMcpClient URL_needs_colon None
      \<lparr>name = ''upstream'', type = Some ''STREAMABLE_HTTP'', command = None, args = None,
       env = None, url = Some ''http://localhost/mcp'', oauth_tokens = None\<rparr>) =
     Inr (with_client (StreamableHTTPClientTransport ''http://localhost/mcp'' None))"
    by (simp add: createMetaMcpClient_streamable truthy_def URL_needs_colon_def
        transformDockerUrl_fst)
  ultimately show ?thesis by blast
qed

theorem createMetaMcpClient_throws_iff_counterexample:
  "fst (createMetaMcpClient URL_needs_colon None
      \<lparr>name = ''upstream'', type = Some ''SSE'', command = None, args = None, env = None,
       url = Some ''not a url'', oauth_tokens = None\<rparr>) = Inl TypeError"
  by (simp add: createMetaMcpClient_sse truthy_def URL_needs_colon_def transformDockerUrl_fst)

text \<open>
  C4, as amended. When the resolved type is \<open>STDIO\<close> (type unset, empty or
  \<open>STDIO\<close>) and \<open>command\<close> is absent, \<open>createMetaMcpClient\<close> does construct a
  subprocess transport: its command is the empty string, \<open>args\<close> and \<open>env\<close> are
  passed on, and the client is returned with it.
\<close>

theorem createMetaMcpClient_stdio_absent_command:
  "\<not> truthy (type sp) \<or> type sp = Some ''STDIO'' \<Longrightarrow> command sp = None \<Longrightarrow>
   fst (createMetaMcpClient new_URL flag sp) =
     Inr \<lparr>client = Some new_Client, transport = Some (StdioClientTransport
        \<lparr>stdio_command = [], stdio_args = args sp, stdio_env = env sp,
         stdio_stderr = ''ignore''\<rparr>)\<rparr>"
  by (simp add: createMetaMcpClient_stdio with_client_def truthy_def)

theorem createMetaMcpClient_stdio_absent_command_witness:
  "command \<lparr>name = ''upstream'', type = Some ''STDIO'', command = None, args = None,
       env = None, url = None, oauth_tokens = None\<rparr> = None \<and>
   fst (createMetaMcpClient URL_needs_colon (Some ''true'')
      \<lparr>name = ''upstream'', type = Some ''STDIO'', command = None, args = None, env = None,
       url = None, oauth_tokens = None\<rparr>) =
     Inr \<lparr>client = Some new_Client, transport = Some (StdioClientTransport
        \<lparr>stdio_command = [], stdio_args = None, stdio_env = None,
         stdio_stderr = ''ignore''\<rparr>)\<rparr>"
  using createMetaMcpClient_stdio_absent_command[of
      "\<lparr>name = ''upstream'', type = Some ''STDIO'', command = None, args = None, env = None,
       url = None, oauth_tokens = None\<rparr>" URL_needs_colon "Some ''true''"]
  by simp

theorem createMetaMcpClient_stdio_absent_command_counterexample:
  "fst (createMetaMcpClient URL_needs_colon None
      \<lparr>name = ''upstream'', type = None, command = None, args = Some [''ok''], env = None,
       url = None, oauth_tokens = None\<rparr>) =
     Inr \<lparr>client = Some new_Client, transport = Some (StdioClientTransport
        \<lparr>stdio_command = [], stdio_args = Some [''ok''], stdio_env = None,
         stdio_stderr = ''ignore''\<rparr>)\<rparr>"
  by (simp add: createMetaMcpClient_stdio with_client_def truthy_def)

lemma sample_sdk_honours_options: "honours_options sample_sdk"
  unfolding honours_options_def
proof (intro allI impI)
  fix tr :: "string Transport" and req
  assume r: "req \<in> sample_sdk tr"
  show "(\<exists>f target init. configured_fetch tr = Some f \<and> req = f target init) \<or>
        (\<exists>ri. configured_requestInit tr = Some ri \<and>
           (\<forall>k v. header_of ri k = Some v \<longrightarrow> header_of (snd req) k = Some v)) \<or>
        (configured_requestInit tr = None \<and> configured_fetch tr = None)"
  proof (cases tr)
    case (StdioClientTransport p)
    with r show ?thesis by (simp add: sample_sdk_def)
  next
    case (SSEClientTransport u opts)
    show ?thesis
    proof (cases opts)
      case None
      with SSEClientTransport show ?thesis by simp
    next
      case (Some opt)
      with r SSEClientTransport
      have "req = eventSourceInit_fetch opt u
                 (Some [''headers'' \<mapsto> Headers [''Accept'' \<mapsto> ''text/event-stream'']]) \<or>
            req = (u, (sse_requestInit opt)(''method'' \<mapsto> Other ''POST''))"
        by (simp add: sample_sdk_def)
      then show ?thesis
      proof
        assume "req = eventSourceInit_fetch opt u
                 (Some [''headers'' \<mapsto> Headers [''Accept'' \<mapsto> ''text/event-stream'']])"
        with SSEClientTransport Some show ?thesis by auto
      next
        assume "req = (u, (sse_requestInit opt)(''method'' \<mapsto> Other ''POST''))"
        with SSEClientTransport Some show ?thesis by (simp add: header_of_def)
      qed
    qed
  next
    case (StreamableHTTPClientTransport u opts)
    show ?thesis
    proof (cases opts)
      case None
      with StreamableHTTPClientTransport show ?thesis by simp
    next
      case (Some opt)
      with r StreamableHTTPClientTransport show ?thesis
        by (auto simp: sample_sdk_def header_of_def)
    qed
  qed
qed

lemma bearer_issued:
  assumes h: "honours_options issued" and req: "req \<in> issued tr"
    and ri: "configured_requestInit tr = Some [''headers'' \<mapsto> Headers [''Authorization'' \<mapsto> b]]"
    and f: "\<And>f target init. configured_fetch tr = Some f \<Longrightarrow>
              header_of (snd (f target init)) ''Authorization'' = Some b"
  shows "header_of (snd req) ''Authorization'' = Some b"
proof -
  from h req have "(\<exists>f target init. configured_fetch tr = Some f \<and> req = f target init) \<or>
        (\<exists>ri. configured_requestInit tr = Some ri \<and>
           (\<forall>k v. header_of ri k = Some v \<longrightarrow> header_of (snd req) k = Some v)) \<or>
        (configured_requestInit tr = None \<and> configured_fetch tr = None)"
    unfolding honours_options_def by blast
  then show ?thesis
  proof (elim disjE exE conjE)
    fix g target init assume "configured_fetch tr = Some g" "req = g target init"
    with f show ?thesis by blast
  next
    fix r assume r: "configured_requestInit tr = Some r"
      and a: "\<forall>k v. header_of r k = Some v \<longrightarrow> header_of (snd req) k = Some v"
    from r ri have "r = [''headers'' \<mapsto> Headers [''Authorization'' \<mapsto> b]]" by simp
    then have "header_of r ''Authorization'' = Some b" by (simp add: header_of_def)
    with a show ?thesis by blast
  next
    assume "configured_requestInit tr = None"
    with ri show ?thesis by simp
  qed
qed

text \<open>
  C5. For \<open>SSE\<close> and \<open>STREAMABLE_HTTP\<close> parameters whose url is not empty and
  accepted by the \<^verbatim>\<open>URL\<close> constructor, \<open>createMetaMcpClient\<close> returns a client with a
  transport to the (transformed) url. With a credential the transport is given a
  \<^verbatim>\<open>requestInit\<close> whose headers are \<^verbatim>\<open>Authorization: Bearer <access_token>\<close>, and for
  \<open>SSE\<close> also an event-source \<^verbatim>\<open>fetch\<close> that sends every request, reconnects
  included and whatever its own \<^verbatim>\<open>init\<close>, with exactly those headers. So every request
  that the transport issues carries the header with the supplied token, for every SDK
  that honours its options. Without a credential the transport gets neither option, so
  no header.
\<close>

theorem createMetaMcpClient_bearer:
  assumes "type sp = Some ''SSE'' \<or> type sp = Some ''STREAMABLE_HTTP''"
    and "truthy (url sp)"
    and "new_URL (fst (transformDockerUrl flag (the (url sp)))) = Some u"
  shows "\<exists>tr. fst (createMetaMcpClient new_URL flag sp) =
            Inr \<lparr>client = Some new_Client, transport = Some tr\<rparr> \<and>
          (if type sp = Some ''SSE'' then \<exists>opts. tr = SSEClientTransport u opts
           else \<exists>opts. tr = StreamableHTTPClientTransport u opts) \<and>
          (case oauth_tokens sp of
             None \<Rightarrow> configured_requestInit tr = None \<and> configured_fetch tr = None
           | Some tokens \<Rightarrow>
               configured_requestInit tr =
                 Some [''headers'' \<mapsto>
                   Headers [''Authorization'' \<mapsto> ''Bearer '' @ access_token tokens]] \<and>
               (type sp = Some ''SSE'' \<longrightarrow>
                  (\<exists>f. configured_fetch tr = Some f \<and>
                     (\<forall>target init. fst (f target init) = target \<and>
                        snd (f target init) ''headers'' =
                          Some (Headers [''Authorization'' \<mapsto>
                            ''Bearer '' @ access_token tokens]) \<and>
                        (\<forall>k. k \<noteq> ''headers'' \<longrightarrow>
                           snd (f target init) k =
                             (case init of None \<Rightarrow> None | Some i \<Rightarrow> i k))))) \<and>
               (\<forall>issued. honours_options issued \<longrightarrow>
                  (\<forall>req \<in> issued tr.
                     header_of (snd req) ''Authorization'' =
                       Some (''Bearer '' @ access_token tokens))))"
proof -
  from assms(1) show ?thesis
  proof
    assume t: "type sp = Some ''SSE''"
    show ?thesis
    proof (cases "oauth_tokens sp")
      case None
      with createMetaMcpClient_sse[OF t assms(2), of new_URL flag] assms(3) t
      show ?thesis by (simp add: with_client_def)
    next
      case (Some tokens)
      let ?b = "''Bearer '' @ access_token tokens"
      let ?tr = "SSEClientTransport u (Some
                \<lparr>sse_requestInit = [''headers'' \<mapsto> Headers [''Authorization'' \<mapsto> ?b]],
                 eventSourceInit_fetch = (\<lambda>target init. (target, spread_headers init
                   [''Authorization'' \<mapsto> ?b]))\<rparr>)"
      from createMetaMcpClient_sse[OF t assms(2), of new_URL flag] assms(3) Some
      have r: "fst (createMetaMcpClient new_URL flag sp) =
          Inr \<lparr>client = Some new_Client, transport = Some ?tr\<rparr>"
        by (simp add: with_client_def)
      have ri: "configured_requestInit ?tr =
          Some [''headers'' \<mapsto> Headers [''Authorization'' \<mapsto> ?b]]" by simp
      have fe: "\<exists>f. configured_fetch ?tr = Some f \<and>
                     (\<forall>target init. fst (f target init) = target \<and>
                        snd (f target init) ''headers'' =
                          Some (Headers [''Authorization'' \<mapsto> ?b]) \<and>
                        (\<forall>k. k \<noteq> ''headers'' \<longrightarrow>
                           snd (f target init) k =
                             (case init of None \<Rightarrow> None | Some i \<Rightarrow> i k)))"
        by (auto simp: spread_headers_def split: option.splits)
      have iss: "\<forall>issued. honours_options issued \<longrightarrow>
                  (\<forall>req \<in> issued ?tr. header_of (snd req) ''Authorization'' = Some ?b)"
      proof (intro allI impI ballI)
        fix issued :: "'a Transport \<Rightarrow> ('a \<times> RequestInit) set" and req
        assume "honours_options issued" "req \<in> issued ?tr"
        then show "header_of (snd req) ''Authorization'' = Some ?b"
          by (rule bearer_issued) (auto simp: header_of_def spread_headers_def)
      qed
      from r ri fe iss t Some show ?thesis by auto
    qed
  next
    assume t: "type sp = Some ''STREAMABLE_HTTP''"
    then have nt: "type sp \<noteq> Some ''SSE''" by simp
    show ?thesis
    proof (cases "oauth_tokens sp")
      case None
      with createMetaMcpClient_streamable[OF t assms(2), of new_URL flag] assms(3) t
      show ?thesis by (simp add: with_client_def)
    next
      case (Some tokens)
      let ?b = "''Bearer '' @ access_token tokens"
      let ?tr = "StreamableHTTPClientTransport u (Some
                \<lparr>http_requestInit = [''headers'' \<mapsto> Headers [''Authorization'' \<mapsto> ?b]]\<rparr>)"
      from createMetaMcpClient_streamable[OF t assms(2), of new_URL flag] assms(3) Some
      have r: "fst (createMetaMcpClient new_URL flag sp) =
          Inr \<lparr>client = Some new_Client, transport = Some (?tr :: 'a Transport)\<rparr>"
        by (simp add: with_client_def)
      have ri: "configured_requestInit (?tr :: 'a Transport) =
          Some [''headers'' \<mapsto> Headers [''Authorization'' \<mapsto> ?b]]" by simp
      have iss: "\<forall>issued. honours_options issued \<longrightarrow>
                  (\<forall>req \<in> issued (?tr :: 'a Transport).
                     header_of (snd req) ''Authorization'' = Some ?b)"
      proof (intro allI impI ballI)
        fix issued :: "'a Transport \<Rightarrow> ('a \<times> RequestInit) set" and req
        assume "honours_options issued" "req \<in> issued ?tr"
        then show "header_of (snd req) ''Authorization'' = Some ?b"
          by (rule bearer_issued) auto
      qed
      from r ri iss nt Some show ?thesis by auto
    qed
  qed
qed

theorem createMetaMcpClient_bearer_witness:
  "type sse_params = Some ''SSE'' \<and>
   truthy (url sse_params) \<and>
   URL_needs_colon (fst (transformDockerUrl (Some ''true'') (the (url sse_params)))) =
     Some ''http://host.docker.internal:3000/mcp'' \<and>
   honours_options sample_sdk \<and>
   fst (createMetaMcpClient URL_needs_colon (Some ''true'') sse_params) =
     Inr (with_client (SSEClientTransport ''http://host.docker.internal:3000/mcp'' (Some
       \<lparr>sse_requestInit =
          [''headers'' \<mapsto> Headers [''Authorization'' \<mapsto> ''Bearer tok123'']],
        eventSourceInit_fetch = (\<lambda>target init. (target, spread_headers init
          [''Authorization'' \<mapsto> ''Bearer tok123'']))\<rparr>))) \<and>
   configured_requestInit
     (the (transport (projr (fst (createMetaMcpClient URL_needs_colon (Some ''true'') sse_params))))) =
     Some [''headers'' \<mapsto> Headers [''Authorization'' \<mapsto> ''Bearer tok123'']] \<and>
   (\<lambda>req. header_of (snd req) ''Authorization'') `
     sample_sdk
       (the (transport (projr (fst (createMetaMcpClient URL_needs_colon (Some ''true'') sse_params))))) =
     {Some ''Bearer tok123''}"
proof -
  let ?u = "''http://host.docker.internal:3000/mcp''"
  let ?tr = "SSEClientTransport ?u (Some
       \<lparr>sse_requestInit =
          [''headers'' \<mapsto> Headers [''Authorization'' \<mapsto> ''Bearer tok123'']],
        eventSourceInit_fetch = (\<lambda>target init. (target, spread_headers init
          [''Authorization'' \<mapsto> ''Bearer tok123'']))\<rparr>)"
  have t: "type sse_params = Some ''SSE''" by (simp add: sse_params_def)
  then have t': "type sse_params = Some ''SSE'' \<or> type sse_params = Some ''STREAMABLE_HTTP''"
    by blast
  have tu: "truthy (url sse_params)" by (simp add: sse_params_def truthy_def)
  have nu: "URL_needs_colon (fst (transformDockerUrl (Some ''true'') (the (url sse_params)))) =
     Some ?u"
    by (simp add: sse_params_def URL_needs_colon_def transformDockerUrl_true loopback_match_def)
  have tok: "oauth_tokens sse_params = Some \<lparr>access_token = ''tok123''\<rparr>"
    by (simp add: sse_params_def)
  have r: "fst (createMetaMcpClient URL_needs_colon (Some ''true'') sse_params) =
     Inr (with_client ?tr)"
    using createMetaMcpClient_sse[OF t tu, of URL_needs_colon "Some ''true''"] nu tok
    by simp
  then have sel: "the (transport (projr (fst (createMetaMcpClient URL_needs_colon
       (Some ''true'') sse_params)))) = ?tr"
    by (simp add: with_client_def)
  from createMetaMcpClient_bearer[where sp = sse_params and new_URL = URL_needs_colon
      and flag = "Some ''true''" and u = ?u, OF t' tu nu] obtain tr where
    tr: "fst (createMetaMcpClient URL_needs_colon (Some ''true'') sse_params) =
            Inr \<lparr>client = Some new_Client, transport = Some tr\<rparr>"
    and ri: "configured_requestInit tr =
        Some [''headers'' \<mapsto> Headers [''Authorization'' \<mapsto> ''Bearer tok123'']]"
    and iss: "\<forall>issued. honours_options issued \<longrightarrow>
        (\<forall>req \<in> issued tr. header_of (snd req) ''Authorization'' = Some ''Bearer tok123'')"
    unfolding tok by auto
  from tr r have eq: "tr = ?tr" by (simp add: with_client_def)
  from iss sample_sdk_honours_options
  have all: "\<forall>req \<in> sample_sdk tr. header_of (snd req) ''Authorization'' = Some ''Bearer tok123''"
    by blast
  have ne: "sample_sdk ?tr \<noteq> {}" by (simp add: sample_sdk_def)
  from all ne have img: "(\<lambda>req. header_of (snd req) ''Authorization'') ` sample_sdk ?tr =
      {Some ''Bearer tok123''}"
    unfolding eq by auto
  from ri have ri': "configured_requestInit ?tr =
        Some [''headers'' \<mapsto> Headers [''Authorization'' \<mapsto> ''Bearer tok123'']]"
    unfolding eq .
  show ?thesis
    unfolding sel using t tu nu sample_sdk_honours_options r ri' img by blast
qed

text \<open>
  C9. The pair returned by \<open>createMetaMcpClient\<close> is all or nothing: the client is
  defined exactly when the transport is.
\<close>

theorem createMetaMcpClient_all_or_nothing:
  "fst (createMetaMcpClient new_URL flag sp) = Inr r \<Longrightarrow>
   (client r = None \<longleftrightarrow> transport r = None)"
  using createMetaMcpClient_shape[of new_URL flag sp r] by (auto simp: with_client_def)

theorem createMetaMcpClient_all_or_nothing_witness:
  "fst (createMetaMcpClient URL_needs_colon None
      \<lparr>name = ''upstream'', type = Some ''WEBSOCKET'', command = None, args = None,
       env = None, url = Some ''ws://localhost:3000'', oauth_tokens = None\<rparr>) =
     Inr \<lparr>client = None, transport = None\<rparr> \<and>
   (client \<lparr>client = None, transport = (None :: string Transport option)\<rparr> = None \<longleftrightarrow>
    transport \<lparr>client = None, transport = (None :: string Transport option)\<rparr> = None)"
proof -
  have r: "fst (createMetaMcpClient URL_needs_colon None
      \<lparr>name = ''upstream'', type = Some ''WEBSOCKET'', command = None, args = None,
       env = None, url = Some ''ws://localhost:3000'', oauth_tokens = None\<rparr>) =
     Inr \<lparr>client = None, transport = None\<rparr>"
    by (simp add: createMetaMcpClient_unsupported truthy_def)
  from createMetaMcpClient_all_or_nothing[OF r] r show ?thesis by simp
qed

section \<open>Properties of the connection establisher\<close>

declare connect_loop.simps [simp del]

lemma call_count_appended [simp]:
  "call_count p (w\<lparr>calls := calls w @ es\<rparr>) = call_count p w + length (filter p es)"
  by (simp add: call_count_def)

lemma connect_loop_resolved:
  "connect_outcome w (call_count is_Connect w) = None \<Longrightarrow>
   connect_loop c t count w =
     (Some \<lparr>cc_client = c, cleanup = cleanup_closure c t\<rparr>,
      w\<lparr>calls := calls w @ [Connect c t]\<rparr>)"
  by (subst connect_loop.simps) (simp add: client_connect_def)

lemma connect_loop_retry:
  "connect_outcome w (call_count is_Connect w) = Some err \<Longrightarrow> count + 1 < retries \<Longrightarrow>
   connect_loop c t count w =
     connect_loop c t (count + 1)
       (w\<lparr>calls := calls w @
          [Connect c t, ConsoleError (''Error connecting to MetaMCP client: '' @ err),
           ClientClose c, Sleep 2500]\<rparr>)"
  by (subst connect_loop.simps)
     (simp add: client_connect_def client_close_def console_error_def sleep_def waitFor_def)

lemma connect_loop_exhausted:
  "connect_outcome w (call_count is_Connect w) = Some err \<Longrightarrow> \<not> count + 1 < retries \<Longrightarrow>
   connect_loop c t count w =
     (None, w\<lparr>calls := calls w @
        [Connect c t, ConsoleError (''Error connecting to MetaMCP client: '' @ err)]\<rparr>)"
  by (subst connect_loop.simps) (simp add: client_connect_def console_error_def)

lemma connect_three_failures:
  assumes "connect_outcome w (call_count is_Connect w) = Some e1"
    and "connect_outcome w (call_count is_Connect w + 1) = Some e2"
    and "connect_outcome w (call_count is_Connect w + 2) = Some e3"
  shows "connectMetaMcpClient c t w =
     (None, w\<lparr>calls := calls w @
        [Connect c t, ConsoleError (''Error connecting to MetaMCP client: '' @ e1),
         ClientClose c, Sleep 2500,
         Connect c t, ConsoleError (''Error connecting to MetaMCP client: '' @ e2),
         ClientClose c, Sleep 2500,
         Connect c t, ConsoleError (''Error connecting to MetaMCP client: '' @ e3)]\<rparr>)"
  using assms
  by (simp add: connectMetaMcpClient_def connect_loop_retry connect_loop_exhausted retries_def)

lemma connect_third_succeeds:
  assumes "connect_outcome w (call_count is_Connect w) = Some e1"
    and "connect_outcome w (call_count is_Connect w + 1) = Some e2"
    and "connect_outcome w (call_count is_Connect w + 2) = None"
  shows "connectMetaMcpClient c t w =
     (Some \<lparr>cc_client = c, cleanup = cleanup_closure c t\<rparr>, w\<lparr>calls := calls w @
        [Connect c t, ConsoleError (''Error connecting to MetaMCP client: '' @ e1),
         ClientClose c, Sleep 2500,
         Connect c t, ConsoleError (''Error connecting to MetaMCP client: '' @ e2),
         ClientClose c, Sleep 2500,
         Connect c t]\<rparr>)"
  using assms
  by (simp add: connectMetaMcpClient_def connect_loop_retry connect_loop_resolved retries_def)

lemma connect_second_succeeds:
  assumes "connect_outcome w (call_count is_Connect w) = Some e1"
    and "connect_outcome w (call_count is_Connect w + 1) = None"
  shows "connectMetaMcpClient c t w =
     (Some \<lparr>cc_client = c, cleanup = cleanup_closure c t\<rparr>, w\<lparr>calls := calls w @
        [Connect c t, ConsoleError (''Error connecting to MetaMCP client: '' @ e1),
         ClientClose c, Sleep 2500,
         Connect c t]\<rparr>)"
  using assms
  by (simp add: connectMetaMcpClient_def connect_loop_retry connect_loop_resolved retries_def)

lemma connect_first_succeeds:
  assumes "connect_outcome w (call_count is_Connect w) = None"
  shows "connectMetaMcpClient c t w =
     (Some \<lparr>cc_client = c, cleanup = cleanup_closure c t\<rparr>,
      w\<lparr>calls := calls w @ [Connect c t]\<rparr>)"
  using assms by (simp add: connectMetaMcpClient_def connect_loop_resolved)

lemma connect_loop_close_outcome:
  "connect_loop c t count (w\<lparr>client_close_outcome := k\<rparr>) =
     (fst (connect_loop c t count w),
      (snd (connect_loop c t count w))\<lparr>client_close_outcome := k\<rparr>)"
proof (induction c t count w rule: connect_loop.induct)
  case (1 c t count w)
  show ?case
  proof (cases "connect_outcome w (call_count is_Connect w)")
    case None
    then show ?thesis by (simp add: connect_loop_resolved call_count_def)
  next
    case (Some err)
    show ?thesis
    proof (cases "count + 1 < retries")
      case True
      let ?w' = "w\<lparr>calls := calls w @
          [Connect c t, ConsoleError (''Error connecting to MetaMCP client: '' @ err),
           ClientClose c, Sleep 2500]\<rparr>"
      have nxt: "sleep waitFor (snd (client_close c
                   (console_error (''Error connecting to MetaMCP client: '' @ err)
                      (snd (client_connect c t w))))) = ?w'"
        by (simp add: client_connect_def client_close_def console_error_def sleep_def
            waitFor_def)
      have "fst (client_connect c t w) = Some err"
        using Some by (simp add: client_connect_def)
      from "1.IH"[OF this refl True] nxt
      have ih: "connect_loop c t (count + 1) (?w'\<lparr>client_close_outcome := k\<rparr>) =
         (fst (connect_loop c t (count + 1) ?w'),
          (snd (connect_loop c t (count + 1) ?w'))\<lparr>client_close_outcome := k\<rparr>)"
        by simp
      have a: "connect_loop c t count w = connect_loop c t (count + 1) ?w'"
        using Some True by (rule connect_loop_retry)
      have swap: "(w\<lparr>client_close_outcome := k\<rparr>)\<lparr>calls :=
            calls (w\<lparr>client_close_outcome := k\<rparr>) @
          [Connect c t, ConsoleError (''Error connecting to MetaMCP client: '' @ err),
           ClientClose c, Sleep 2500]\<rparr> = ?w'\<lparr>client_close_outcome := k\<rparr>"
        by simp
      have "connect_loop c t count (w\<lparr>client_close_outcome := k\<rparr>) =
            connect_loop c t (count + 1) (?w'\<lparr>client_close_outcome := k\<rparr>)"
        using connect_loop_retry[of "w\<lparr>client_close_outcome := k\<rparr>" err count c t] Some True
        unfolding swap by (simp add: call_count_def)
      with ih a show ?thesis by simp
    next
      case False
      with Some show ?thesis by (simp add: connect_loop_exhausted call_count_def)
    qed
  qed
qed

lemma connect_loop_handle:
  "fst (connect_loop c t count w) = Some h \<Longrightarrow>
   h = \<lparr>cc_client = c, cleanup = cleanup_closure c t\<rparr>"
proof (induction c t count w arbitrary: h rule: connect_loop.induct)
  case (1 c t count w)
  show ?case
  proof (cases "connect_outcome w (call_count is_Connect w)")
    case None
    with "1.prems" show ?thesis by (simp add: connect_loop_resolved)
  next
    case (Some err)
    show ?thesis
    proof (cases "count + 1 < retries")
      case True
      have nxt: "sleep waitFor (snd (client_close c
                   (console_error (''Error connecting to MetaMCP client: '' @ err)
                      (snd (client_connect c t w))))) =
          w\<lparr>calls := calls w @
          [Connect c t, ConsoleError (''Error connecting to MetaMCP client: '' @ err),
           ClientClose c, Sleep 2500]\<rparr>"
        by (simp add: client_connect_def client_close_def console_error_def sleep_def
            waitFor_def)
      have "fst (client_connect c t w) = Some err"
        using Some by (simp add: client_connect_def)
      from "1.IH"[OF this refl True] "1.prems" show ?thesis
        unfolding nxt connect_loop_retry[OF Some True] by blast
    next
      case False
      with Some "1.prems" show ?thesis by (simp add: connect_loop_exhausted)
    qed
  qed
qed

lemma cleanup_closure_resolved:
  "transport_close_outcome w (call_count is_TransportClose w) = None \<Longrightarrow>
   cleanup_closure c t w =
     (client_close_outcome w (call_count is_ClientClose w),
      w\<lparr>calls := calls w @ [TransportClose t, ClientClose c]\<rparr>)"
  by (simp add: cleanup_closure_def transport_close_def client_close_def)

lemma cleanup_closure_rejected:
  "transport_close_outcome w (call_count is_TransportClose w) = Some e \<Longrightarrow>
   cleanup_closure c t w = (Some e, w\<lparr>calls := calls w @ [TransportClose t]\<rparr>)"
  by (simp add: cleanup_closure_def transport_close_def)

text \<open>
  C1, as amended. When the handshake fails on all three attempts,
  \<open>connectMetaMcpClient\<close> returns no handle after exactly three calls of
  \<^verbatim>\<open>client.connect\<close>. The only cleanup is one \<^verbatim>\<open>client.close()\<close> after the first and
  one after the second failure, each followed by the wait; \<^verbatim>\<open>transport.close()\<close> is not
  called, and after the third failure nothing is closed.
\<close>

theorem connectMetaMcpClient_exhausted:
  assumes "connect_outcome w (call_count is_Connect w) = Some e1"
    and "connect_outcome w (call_count is_Connect w + 1) = Some e2"
    and "connect_outcome w (call_count is_Connect w + 2) = Some e3"
  shows "connectMetaMcpClient c t w =
     (None, w\<lparr>calls := calls w @
        [Connect c t, ConsoleError (''Error connecting to MetaMCP client: '' @ e1),
         ClientClose c, Sleep 2500,
         Connect c t, ConsoleError (''Error connecting to MetaMCP client: '' @ e2),
         ClientClose c, Sleep 2500,
         Connect c t, ConsoleError (''Error connecting to MetaMCP client: '' @ e3)]\<rparr>)"
  using assms by (rule connect_three_failures)

theorem connectMetaMcpClient_exhausted_witness:
  "connect_outcome (close_failing_world 3) (call_count is_Connect (close_failing_world 3)) =
     Some ''Error: connect ECONNREFUSED'' \<and>
   connect_outcome (close_failing_world 3) (call_count is_Connect (close_failing_world 3) + 1) =
     Some ''Error: connect ECONNREFUSED'' \<and>
   connect_outcome (close_failing_world 3) (call_count is_Connect (close_failing_world 3) + 2) =
     Some ''Error: connect ECONNREFUSED'' \<and>
   connectMetaMcpClient ''client'' ''transport'' (close_failing_world 3) =
     (None, (close_failing_world 3)\<lparr>calls :=
        [Connect ''client'' ''transport'',
         ConsoleError ''Error connecting to MetaMCP client: Error: connect ECONNREFUSED'',
         ClientClose ''client'', Sleep 2500,
         Connect ''client'' ''transport'',
         ConsoleError ''Error connecting to MetaMCP client: Error: connect ECONNREFUSED'',
         ClientClose ''client'', Sleep 2500,
         Connect ''client'' ''transport'',
         ConsoleError ''Error connecting to MetaMCP client: Error: connect ECONNREFUSED'']\<rparr>)"
proof -
  have h: "connect_outcome (close_failing_world 3) (call_count is_Connect (close_failing_world 3)) =
       Some ''Error: connect ECONNREFUSED''"
    "connect_outcome (close_failing_world 3) (call_count is_Connect (close_failing_world 3) + 1) =
       Some ''Error: connect ECONNREFUSED''"
    "connect_outcome (close_failing_world 3) (call_count is_Connect (close_failing_world 3) + 2) =
       Some ''Error: connect ECONNREFUSED''"
    by (simp_all add: close_failing_world_def scripted_world_def call_count_def)
  have "calls (close_failing_world 3) = []"
    by (simp add: close_failing_world_def scripted_world_def)
  with connectMetaMcpClient_exhausted[OF h, of "''client''" "''transport''"] h
  show ?thesis by simp
qed

theorem connectMetaMcpClient_exhausted_counterexample:
  "fst (connectMetaMcpClient ''client'' ''transport'' (scripted_world 3)) = None \<and>
   calls (snd (connectMetaMcpClient ''client'' ''transport'' (scripted_world 3))) =
     [Connect ''client'' ''transport'',
      ConsoleError ''Error connecting to MetaMCP client: Error: connect ECONNREFUSED'',
      ClientClose ''client'', Sleep 2500,
      Connect ''client'' ''transport'',
      ConsoleError ''Error connecting to MetaMCP client: Error: connect ECONNREFUSED'',
      ClientClose ''client'', Sleep 2500,
      Connect ''client'' ''transport'',
      ConsoleError ''Error connecting to MetaMCP client: Error: connect ECONNREFUSED''] \<and>
   call_count is_TransportClose
     (snd (connectMetaMcpClient ''client'' ''transport'' (scripted_world 3))) = 0"
proof -
  have h: "connect_outcome (scripted_world 3) (call_count is_Connect (scripted_world 3)) =
       Some ''Error: connect ECONNREFUSED''"
    "connect_outcome (scripted_world 3) (call_count is_Connect (scripted_world 3) + 1) =
       Some ''Error: connect ECONNREFUSED''"
    "connect_outcome (scripted_world 3) (call_count is_Connect (scripted_world 3) + 2) =
       Some ''Error: connect ECONNREFUSED''"
    by (simp_all add: scripted_world_def call_count_def)
  have "calls (scripted_world 3) = []" by (simp add: scripted_world_def)
  with connect_three_failures[OF h, of "''client''" "''transport''"]
  show ?thesis by (simp add: call_count_def)
qed

text \<open>
  C6. When the handshake fails twice and then succeeds, \<open>connectMetaMcpClient\<close>
  returns the handle after exactly two \<^verbatim>\<open>client.close()\<close> calls and two waits of 2500
  milliseconds, one before each retry. A success on the first or on the second attempt
  returns the handle at once: the successful \<^verbatim>\<open>client.connect\<close> is the last call made.
\<close>

theorem connectMetaMcpClient_retries_then_succeeds:
  "(connect_outcome w (call_count is_Connect w) = Some e1 \<and>
    connect_outcome w (call_count is_Connect w + 1) = Some e2 \<and>
    connect_outcome w (call_count is_Connect w + 2) = None \<longrightarrow>
      connectMetaMcpClient c t w =
        (Some \<lparr>cc_client = c, cleanup = cleanup_closure c t\<rparr>, w\<lparr>calls := calls w @
           [Connect c t, ConsoleError (''Error connecting to MetaMCP client: '' @ e1),
            ClientClose c, Sleep 2500,
            Connect c t, ConsoleError (''Error connecting to MetaMCP client: '' @ e2),
            ClientClose c, Sleep 2500,
            Connect c t]\<rparr>)) \<and>
   (connect_outcome w (call_count is_Connect w) = Some e1 \<and>
    connect_outcome w (call_count is_Connect w + 1) = None \<longrightarrow>
      connectMetaMcpClient c t w =
        (Some \<lparr>cc_client = c, cleanup = cleanup_closure c t\<rparr>, w\<lparr>calls := calls w @
           [Connect c t, ConsoleError (''Error connecting to MetaMCP client: '' @ e1),
            ClientClose c, Sleep 2500,
            Connect c t]\<rparr>)) \<and>
   (connect_outcome w (call_count is_Connect w) = None \<longrightarrow>
      connectMetaMcpClient c t w =
        (Some \<lparr>cc_client = c, cleanup = cleanup_closure c t\<rparr>,
         w\<lparr>calls := calls w @ [Connect c t]\<rparr>))"
  using connect_third_succeeds[of w e1 e2 c t] connect_second_succeeds[of w e1 c t]
    connect_first_succeeds[of w c t]
  by blast

theorem connectMetaMcpClient_retries_then_succeeds_witness:
  "connect_outcome (scripted_world 2) (call_count is_Connect (scripted_world 2)) =
     Some ''Error: connect ECONNREFUSED'' \<and>
   connect_outcome (scripted_world 2) (call_count is_Connect (scripted_world 2) + 1) =
     Some ''Error: connect ECONNREFUSED'' \<and>
   connect_outcome (scripted_world 2) (call_count is_Connect (scripted_world 2) + 2) = None \<and>
   connectMetaMcpClient ''client'' ''transport'' (scripted_world 2) =
     (Some \<lparr>cc_client = ''client'', cleanup = cleanup_closure ''client'' ''transport''\<rparr>,
      (scripted_world 2)\<lparr>calls :=
        [Connect ''client'' ''transport'',
         ConsoleError ''Error connecting to MetaMCP client: Error: connect ECONNREFUSED'',
         ClientClose ''client'', Sleep 2500,
         Connect ''client'' ''transport'',
         ConsoleError ''Error connecting to MetaMCP client: Error: connect ECONNREFUSED'',
         ClientClose ''client'', Sleep 2500,
         Connect ''client'' ''transport'']\<rparr>) \<and>
   connect_outcome (scripted_world 1) (call_count is_Connect (scripted_world 1)) =
     Some ''Error: connect ECONNREFUSED'' \<and>
   connect_outcome (scripted_world 1) (call_count is_Connect (scripted_world 1) + 1) = None \<and>
   connectMetaMcpClient ''client'' ''transport'' (scripted_world 1) =
     (Some \<lparr>cc_client = ''client'', cleanup = cleanup_closure ''client'' ''transport''\<rparr>,
      (scripted_world 1)\<lparr>calls :=
        [Connect ''client'' ''transport'',
         ConsoleError ''Error connecting to MetaMCP client: Error: connect ECONNREFUSED'',
         ClientClose ''client'', Sleep 2500,
         Connect ''client'' ''transport'']\<rparr>) \<and>
   connect_outcome (scripted_world 0) (call_count is_Connect (scripted_world 0)) = None \<and>
   connectMetaMcpClient ''client'' ''transport'' (scripted_world 0) =
     (Some \<lparr>cc_client = ''client'', cleanup = cleanup_closure ''client'' ''transport''\<rparr>,
      (scripted_world 0)\<lparr>calls := [Connect ''client'' ''transport'']\<rparr>)"
proof -
  have h1: "connect_outcome (scripted_world 1) (call_count is_Connect (scripted_world 1)) =
       Some ''Error: connect ECONNREFUSED'' \<and>
     connect_outcome (scripted_world 1) (call_count is_Connect (scripted_world 1) + 1) = None"
    by (simp add: scripted_world_def call_count_def)
  have c1: "calls (scripted_world 1) = []" by (simp add: scripted_world_def)
  from connectMetaMcpClient_retries_then_succeeds[of "scripted_world 1"
      "''Error: connect ECONNREFUSED''" _ "''client''" "''transport''"] h1 c1
  have m: "connectMetaMcpClient ''client'' ''transport'' (scripted_world 1) =
     (Some \<lparr>cc_client = ''client'', cleanup = cleanup_closure ''client'' ''transport''\<rparr>,
      (scripted_world 1)\<lparr>calls :=
        [Connect ''client'' ''transport'',
         ConsoleError ''Error connecting to MetaMCP client: Error: connect ECONNREFUSED'',
         ClientClose ''client'', Sleep 2500,
         Connect ''client'' ''transport'']\<rparr>)"
    by simp
  have h: "connect_outcome (scripted_world 2) (call_count is_Connect (scripted_world 2)) =
       Some ''Error: connect ECONNREFUSED'' \<and>
     connect_outcome (scripted_world 2) (call_count is_Connect (scripted_world 2) + 1) =
       Some ''Error: connect ECONNREFUSED'' \<and>
     connect_outcome (scripted_world 2) (call_count is_Connect (scripted_world 2) + 2) = None"
    by (simp add: scripted_world_def call_count_def)
  have h0: "connect_outcome (scripted_world 0) (call_count is_Connect (scripted_world 0)) = None"
    by (simp add: scripted_world_def call_count_def)
  have c: "calls (scripted_world 2) = []" "calls (scripted_world 0) = []"
    by (simp_all add: scripted_world_def)
  from connectMetaMcpClient_retries_then_succeeds[of "scripted_world 2"
      "''Error: connect ECONNREFUSED''" "''Error: connect ECONNREFUSED''"
      "''client''" "''transport''"] h c
  have a: "connectMetaMcpClient ''client'' ''transport'' (scripted_world 2) =
     (Some \<lparr>cc_client = ''client'', cleanup = cleanup_closure ''client'' ''transport''\<rparr>,
      (scripted_world 2)\<lparr>calls :=
        [Connect ''client'' ''transport'',
         ConsoleError ''Error connecting to MetaMCP client: Error: connect ECONNREFUSED'',
         ClientClose ''client'', Sleep 2500,
         Connect ''client'' ''transport'',
         ConsoleError ''Error connecting to MetaMCP client: Error: connect ECONNREFUSED'',
         ClientClose ''client'', Sleep 2500,
         Connect ''client'' ''transport'']\<rparr>)"
    by simp
  from connectMetaMcpClient_retries_then_succeeds[of "scripted_world 0" _ _
      "''client''" "''transport''"] h0 c
  have b: "connectMetaMcpClient ''client'' ''transport'' (scripted_world 0) =
     (Some \<lparr>cc_client = ''client'', cleanup = cleanup_closure ''client'' ''transport''\<rparr>,
      (scripted_world 0)\<lparr>calls := [Connect ''client'' ''transport'']\<rparr>)"
    by simp
  from h h1 h0 a m b show ?thesis by blast
qed

text \<open>
  C7, as amended. The cleanup of every handle returned by \<open>connectMetaMcpClient\<close>
  calls \<^verbatim>\<open>transport.close()\<close> and then \<^verbatim>\<open>client.close()\<close>, in that order. It keeps no
  record of having run: a second invocation calls both again, so each resource then
  has two close calls. An error of \<^verbatim>\<open>transport.close()\<close> ends the cleanup with that
  error before the client is closed, and the outcome of \<^verbatim>\<open>client.close()\<close> is the
  outcome of the cleanup.
\<close>

theorem cleanup_closes_on_every_call:
  assumes "fst (connectMetaMcpClient c t w0) = Some h"
  shows "(transport_close_outcome w (call_count is_TransportClose w) = None \<longrightarrow>
            cleanup h w =
              (client_close_outcome w (call_count is_ClientClose w),
               w\<lparr>calls := calls w @ [TransportClose t, ClientClose c]\<rparr>)) \<and>
         (transport_close_outcome w (call_count is_TransportClose w) = Some e \<longrightarrow>
            cleanup h w = (Some e, w\<lparr>calls := calls w @ [TransportClose t]\<rparr>)) \<and>
         (transport_close_outcome w (call_count is_TransportClose w) = None \<and>
          transport_close_outcome w (call_count is_TransportClose w + 1) = None \<longrightarrow>
            cleanup h (snd (cleanup h w)) =
              (client_close_outcome w (call_count is_ClientClose w + 1),
               w\<lparr>calls := calls w @
                  [TransportClose t, ClientClose c, TransportClose t, ClientClose c]\<rparr>))"
proof -
  from assms have h: "cleanup h = cleanup_closure c t"
    using connect_loop_handle[of c t 0 w0 h] by (simp add: connectMetaMcpClient_def)
  show ?thesis
    unfolding h
    by (simp add: cleanup_closure_resolved cleanup_closure_rejected)
qed

theorem cleanup_closes_on_every_call_witness:
  "fst (connectMetaMcpClient ''client'' ''transport'' (scripted_world 1)) =
     Some \<lparr>cc_client = ''client'', cleanup = cleanup_closure ''client'' ''transport''\<rparr> \<and>
   transport_close_outcome (scripted_world 0) (call_count is_TransportClose (scripted_world 0)) = None \<and>
   transport_close_outcome (scripted_world 0) (call_count is_TransportClose (scripted_world 0) + 1) = None \<and>
   cleanup_closure ''client'' ''transport'' (scripted_world 0) =
     (None, (scripted_world 0)\<lparr>calls :=
        [TransportClose ''transport'', ClientClose ''client'']\<rparr>) \<and>
   cleanup_closure ''client'' ''transport''
       (snd (cleanup_closure ''client'' ''transport'' (scripted_world 0))) =
     (None, (scripted_world 0)\<lparr>calls :=
        [TransportClose ''transport'', ClientClose ''client'',
         TransportClose ''transport'', ClientClose ''client'']\<rparr>) \<and>
   transport_close_outcome transport_close_failing_world
       (call_count is_TransportClose transport_close_failing_world) =
     Some ''Error: kill EPERM'' \<and>
   cleanup_closure ''client'' ''transport'' transport_close_failing_world =
     (Some ''Error: kill EPERM'',
      transport_close_failing_world\<lparr>calls := [TransportClose ''transport'']\<rparr>)"
proof -
  let ?h = "\<lparr>cc_client = ''client'', cleanup = cleanup_closure ''client'' ''transport''\<rparr>"
  have f: "transport_close_outcome transport_close_failing_world
       (call_count is_TransportClose transport_close_failing_world) =
     Some ''Error: kill EPERM''"
    "calls transport_close_failing_world = []"
    by (simp_all add: transport_close_failing_world_def scripted_world_def)
  have r: "fst (connectMetaMcpClient ''client'' ''transport'' (scripted_world 1)) = Some ?h"
    using connect_second_succeeds[of "scripted_world 1" "''Error: connect ECONNREFUSED''"
        "''client''" "''transport''"]
    by (simp add: scripted_world_def call_count_def)
  have o: "transport_close_outcome (scripted_world 0)
        (call_count is_TransportClose (scripted_world 0)) = None"
    "transport_close_outcome (scripted_world 0)
        (call_count is_TransportClose (scripted_world 0) + 1) = None"
    "client_close_outcome (scripted_world 0) = (\<lambda>n. None)"
    "calls (scripted_world 0) = []"
    by (simp_all add: scripted_world_def)
  note th = cleanup_closes_on_every_call[OF r, of "scripted_world 0", unfolded o]
  from th have a: "cleanup ?h (scripted_world 0) =
     (None, (scripted_world 0)\<lparr>calls :=
        [] @ [TransportClose ''transport'', ClientClose ''client'']\<rparr>)"
    by blast
  from th have b: "cleanup ?h (snd (cleanup ?h (scripted_world 0))) =
     (None, (scripted_world 0)\<lparr>calls :=
        [] @ [TransportClose ''transport'', ClientClose ''client'',
         TransportClose ''transport'', ClientClose ''client'']\<rparr>)"
    by blast
  show ?thesis
  proof (intro conjI)
    show "cleanup_closure ''client'' ''transport'' (scripted_world 0) =
      (None, (scripted_world 0)\<lparr>calls :=
        [TransportClose ''transport'', ClientClose ''client'']\<rparr>)"
      using a by simp
    show "cleanup_closure ''client'' ''transport''
       (snd (cleanup_closure ''client'' ''transport'' (scripted_world 0))) =
      (None, (scripted_world 0)\<lparr>calls :=
        [TransportClose ''transport'', ClientClose ''client'',
         TransportClose ''transport'', ClientClose ''client'']\<rparr>)"
      using b by simp
    show "cleanup_closure ''client'' ''transport'' transport_close_failing_world =
      (Some ''Error: kill EPERM'',
       transport_close_failing_world\<lparr>calls := [TransportClose ''transport'']\<rparr>)"
      using cleanup_closes_on_every_call[OF r, of transport_close_failing_world
          "''Error: kill EPERM''"] f
      by simp
  qed (rule r o(1) o(2) f(1))+
qed

theorem cleanup_closes_on_every_call_counterexample:
  "calls (snd (cleanup (the (fst (connectMetaMcpClient ''client'' ''transport'' (scripted_world 0))))
     (snd (cleanup (the (fst (connectMetaMcpClient ''client'' ''transport'' (scripted_world 0))))
        (snd (connectMetaMcpClient ''client'' ''transport'' (scripted_world 0))))))) =
     [Connect ''client'' ''transport'',
      TransportClose ''transport'', ClientClose ''client'',
      TransportClose ''transport'', ClientClose ''client''] \<and>
   call_count is_TransportClose
     (snd (cleanup (the (fst (connectMetaMcpClient ''client'' ''transport'' (scripted_world 0))))
       (snd (cleanup (the (fst (connectMetaMcpClient ''client'' ''transport'' (scripted_world 0))))
          (snd (connectMetaMcpClient ''client'' ''transport'' (scripted_world 0))))))) = 2 \<and>
   call_count is_ClientClose
     (snd (cleanup (the (fst (connectMetaMcpClient ''client'' ''transport'' (scripted_world 0))))
       (snd (cleanup (the (fst (connectMetaMcpClient ''client'' ''transport'' (scripted_world 0))))
          (snd (connectMetaMcpClient ''client'' ''transport'' (scripted_world 0))))))) = 2"
proof -
  have "connectMetaMcpClient ''client'' ''transport'' (scripted_world 0) =
     (Some \<lparr>cc_client = ''client'', cleanup = cleanup_closure ''client'' ''transport''\<rparr>,
      (scripted_world 0)\<lparr>calls := calls (scripted_world 0) @ [Connect ''client'' ''transport'']\<rparr>)"
    by (rule connect_first_succeeds) (simp add: scripted_world_def call_count_def)
  then show ?thesis
    by (simp add: scripted_world_def cleanup_closure_def transport_close_def client_close_def
        call_count_def)
qed

text \<open>
  C8. After a failed attempt with attempts remaining, \<open>connectMetaMcpClient\<close> logs
  the connection error, calls \<^verbatim>\<open>client.close()\<close>, waits 2500 milliseconds and makes the
  next attempt, and the outcome of that close is dropped: for every script \<open>k\<close> of
  outcomes of \<^verbatim>\<open>client.close()\<close>, rejecting or not, the calls made and the result are
  the ones given here, the logged lines are the connection errors, and the result and
  the calls are those of the run in which every close resolves.
\<close>

theorem connectMetaMcpClient_close_error_swallowed:
  "(connect_outcome w (call_count is_Connect w) = Some e1 \<and>
    connect_outcome w (call_count is_Connect w + 1) = None \<longrightarrow>
      connectMetaMcpClient c t (w\<lparr>client_close_outcome := k\<rparr>) =
        (Some \<lparr>cc_client = c, cleanup = cleanup_closure c t\<rparr>,
         w\<lparr>client_close_outcome := k, calls := calls w @
           [Connect c t, ConsoleError (''Error connecting to MetaMCP client: '' @ e1),
            ClientClose c, Sleep 2500,
            Connect c t]\<rparr>)) \<and>
   (connect_outcome w (call_count is_Connect w) = Some e1 \<and>
    connect_outcome w (call_count is_Connect w + 1) = Some e2 \<and>
    connect_outcome w (call_count is_Connect w + 2) = None \<longrightarrow>
      connectMetaMcpClient c t (w\<lparr>client_close_outcome := k\<rparr>) =
        (Some \<lparr>cc_client = c, cleanup = cleanup_closure c t\<rparr>,
         w\<lparr>client_close_outcome := k, calls := calls w @
           [Connect c t, ConsoleError (''Error connecting to MetaMCP client: '' @ e1),
            ClientClose c, Sleep 2500,
            Connect c t, ConsoleError (''Error connecting to MetaMCP client: '' @ e2),
            ClientClose c, Sleep 2500,
            Connect c t]\<rparr>)) \<and>
   (connect_outcome w (call_count is_Connect w) = Some e1 \<and>
    connect_outcome w (call_count is_Connect w + 1) = Some e2 \<and>
    connect_outcome w (call_count is_Connect w + 2) = Some e3 \<longrightarrow>
      connectMetaMcpClient c t (w\<lparr>client_close_outcome := k\<rparr>) =
        (None,
         w\<lparr>client_close_outcome := k, calls := calls w @
           [Connect c t, ConsoleError (''Error connecting to MetaMCP client: '' @ e1),
            ClientClose c, Sleep 2500,
            Connect c t, ConsoleError (''Error connecting to MetaMCP client: '' @ e2),
            ClientClose c, Sleep 2500,
            Connect c t, ConsoleError (''Error connecting to MetaMCP client: '' @ e3)]\<rparr>)) \<and>
   connectMetaMcpClient c t (w\<lparr>client_close_outcome := k\<rparr>) =
     (fst (connectMetaMcpClient c t w),
      (snd (connectMetaMcpClient c t w))\<lparr>client_close_outcome := k\<rparr>)"
proof -
  let ?w = "w\<lparr>client_close_outcome := k\<rparr>"
  have n: "call_count is_Connect ?w = call_count is_Connect w"
    and o: "connect_outcome ?w = connect_outcome w"
    and cs: "calls ?w = calls w"
    by (simp_all add: call_count_def)
  show ?thesis
  proof (intro conjI impI)
    assume "connect_outcome w (call_count is_Connect w) = Some e1 \<and>
      connect_outcome w (call_count is_Connect w + 1) = None"
    then have "connect_outcome ?w (call_count is_Connect ?w) = Some e1"
      and "connect_outcome ?w (call_count is_Connect ?w + 1) = None"
      unfolding n o by blast+
    from connect_second_succeeds[OF this, of c t]
    show "connectMetaMcpClient c t ?w =
        (Some \<lparr>cc_client = c, cleanup = cleanup_closure c t\<rparr>,
         w\<lparr>client_close_outcome := k, calls := calls w @
           [Connect c t, ConsoleError (''Error connecting to MetaMCP client: '' @ e1),
            ClientClose c, Sleep 2500,
            Connect c t]\<rparr>)"
      unfolding cs .
  next
    assume "connect_outcome w (call_count is_Connect w) = Some e1 \<and>
      connect_outcome w (call_count is_Connect w + 1) = Some e2 \<and>
      connect_outcome w (call_count is_Connect w + 2) = None"
    then have "connect_outcome ?w (call_count is_Connect ?w) = Some e1"
      and "connect_outcome ?w (call_count is_Connect ?w + 1) = Some e2"
      and "connect_outcome ?w (call_count is_Connect ?w + 2) = None"
      unfolding n o by blast+
    from connect_third_succeeds[OF this, of c t]
    show "connectMetaMcpClient c t ?w =
        (Some \<lparr>cc_client = c, cleanup = cleanup_closure c t\<rparr>,
         w\<lparr>client_close_outcome := k, calls := calls w @
           [Connect c t, ConsoleError (''Error connecting to MetaMCP client: '' @ e1),
            ClientClose c, Sleep 2500,
            Connect c t, ConsoleError (''Error connecting to MetaMCP client: '' @ e2),
            ClientClose c, Sleep 2500,
            Connect c t]\<rparr>)"
      unfolding cs .
  next
    assume "connect_outcome w (call_count is_Connect w) = Some e1 \<and>
      connect_outcome w (call_count is_Connect w + 1) = Some e2 \<and>
      connect_outcome w (call_count is_Connect w + 2) = Some e3"
    then have "connect_outcome ?w (call_count is_Connect ?w) = Some e1"
      and "connect_outcome ?w (call_count is_Connect ?w + 1) = Some e2"
      and "connect_outcome ?w (call_count is_Connect ?w + 2) = Some e3"
      unfolding n o by blast+
    from connect_three_failures[OF this, of c t]
    show "connectMetaMcpClient c t ?w =
        (None,
         w\<lparr>client_close_outcome := k, calls := calls w @
           [Connect c t, ConsoleError (''Error connecting to MetaMCP client: '' @ e1),
            ClientClose c, Sleep 2500,
            Connect c t, ConsoleError (''Error connecting to MetaMCP client: '' @ e2),
            ClientClose c, Sleep 2500,
            Connect c t, ConsoleError (''Error connecting to MetaMCP client: '' @ e3)]\<rparr>)"
      unfolding cs .
  next
    show "connectMetaMcpClient c t ?w =
       (fst (connectMetaMcpClient c t w),
        (snd (connectMetaMcpClient c t w))\<lparr>client_close_outcome := k\<rparr>)"
      unfolding connectMetaMcpClient_def by (rule connect_loop_close_outcome)
  qed
qed

theorem connectMetaMcpClient_close_error_swallowed_witness:
  "client_close_outcome (close_failing_world 1) 0 = Some ''Error: Not connected'' \<and>
   connect_outcome (scripted_world 1) (call_count is_Connect (scripted_world 1)) =
     Some ''Error: connect ECONNREFUSED'' \<and>
   connect_outcome (scripted_world 1) (call_count is_Connect (scripted_world 1) + 1) = None \<and>
   connectMetaMcpClient ''client'' ''transport'' (close_failing_world 1) =
     (Some \<lparr>cc_client = ''client'', cleanup = cleanup_closure ''client'' ''transport''\<rparr>,
      (close_failing_world 1)\<lparr>calls :=
        [Connect ''client'' ''transport'',
         ConsoleError ''Error connecting to MetaMCP client: Error: connect ECONNREFUSED'',
         ClientClose ''client'', Sleep 2500,
         Connect ''client'' ''transport'']\<rparr>) \<and>
   connect_outcome (scripted_world 2) (call_count is_Connect (scripted_world 2)) =
     Some ''Error: connect ECONNREFUSED'' \<and>
   connect_outcome (scripted_world 2) (call_count is_Connect (scripted_world 2) + 1) =
     Some ''Error: connect ECONNREFUSED'' \<and>
   connect_outcome (scripted_world 2) (call_count is_Connect (scripted_world 2) + 2) = None \<and>
   connectMetaMcpClient ''client'' ''transport'' (close_failing_world 2) =
     (Some \<lparr>cc_client = ''client'', cleanup = cleanup_closure ''client'' ''transport''\<rparr>,
      (close_failing_world 2)\<lparr>calls :=
        [Connect ''client'' ''transport'',
         ConsoleError ''Error connecting to MetaMCP client: Error: connect ECONNREFUSED'',
         ClientClose ''client'', Sleep 2500,
         Connect ''client'' ''transport'',
         ConsoleError ''Error connecting to MetaMCP client: Error: connect ECONNREFUSED'',
         ClientClose ''client'', Sleep 2500,
         Connect ''client'' ''transport'']\<rparr>) \<and>
   connect_outcome (scripted_world 3) (call_count is_Connect (scripted_world 3)) =
     Some ''Error: connect ECONNREFUSED'' \<and>
   connect_outcome (scripted_world 3) (call_count is_Connect (scripted_world 3) + 1) =
     Some ''Error: connect ECONNREFUSED'' \<and>
   connect_outcome (scripted_world 3) (call_count is_Connect (scripted_world 3) + 2) =
     Some ''Error: connect ECONNREFUSED'' \<and>
   connectMetaMcpClient ''client'' ''transport'' (close_failing_world 3) =
     (None,
      (close_failing_world 3)\<lparr>calls :=
        [Connect ''client'' ''transport'',
         ConsoleError ''Error connecting to MetaMCP client: Error: connect ECONNREFUSED'',
         ClientClose ''client'', Sleep 2500,
         Connect ''client'' ''transport'',
         ConsoleError ''Error connecting to MetaMCP client: Error: connect ECONNREFUSED'',
         ClientClose ''client'', Sleep 2500,
         Connect ''client'' ''transport'',
         ConsoleError ''Error connecting to MetaMCP client: Error: connect ECONNREFUSED'']\<rparr>) \<and>
   connectMetaMcpClient ''client'' ''transport'' (close_failing_world 2) =
     (fst (connectMetaMcpClient ''client'' ''transport'' (scripted_world 2)),
      (snd (connectMetaMcpClient ''client'' ''transport'' (scripted_world 2)))
        \<lparr>client_close_outcome := (\<lambda>n. Some ''Error: Not connected'')\<rparr>)"
proof -
  let ?k = "\<lambda>n::nat. Some ''Error: Not connected''"
  let ?e = "''Error: connect ECONNREFUSED''"
  have rej: "client_close_outcome (close_failing_world 1) 0 = Some ''Error: Not connected''"
    by (simp add: close_failing_world_def)
  have h1: "connect_outcome (scripted_world 1) (call_count is_Connect (scripted_world 1)) = Some ?e \<and>
     connect_outcome (scripted_world 1) (call_count is_Connect (scripted_world 1) + 1) = None"
    by (simp add: scripted_world_def call_count_def)
  have h2: "connect_outcome (scripted_world 2) (call_count is_Connect (scripted_world 2)) = Some ?e \<and>
     connect_outcome (scripted_world 2) (call_count is_Connect (scripted_world 2) + 1) = Some ?e \<and>
     connect_outcome (scripted_world 2) (call_count is_Connect (scripted_world 2) + 2) = None"
    by (simp add: scripted_world_def call_count_def)
  have h3: "connect_outcome (scripted_world 3) (call_count is_Connect (scripted_world 3)) = Some ?e \<and>
     connect_outcome (scripted_world 3) (call_count is_Connect (scripted_world 3) + 1) = Some ?e \<and>
     connect_outcome (scripted_world 3) (call_count is_Connect (scripted_world 3) + 2) = Some ?e"
    by (simp add: scripted_world_def call_count_def)
  have cs: "calls (scripted_world j) = []" for j by (simp add: scripted_world_def)
  note th = connectMetaMcpClient_close_error_swallowed[where c = "''client''"
      and t = "''transport''" and k = ?k and ?e1.0 = ?e and ?e2.0 = ?e and ?e3.0 = ?e]
  from th[of "scripted_world 1"] h1
  have a: "connectMetaMcpClient ''client'' ''transport'' (close_failing_world 1) =
     (Some \<lparr>cc_client = ''client'', cleanup = cleanup_closure ''client'' ''transport''\<rparr>,
      (close_failing_world 1)\<lparr>calls :=
        [Connect ''client'' ''transport'',
         ConsoleError ''Error connecting to MetaMCP client: Error: connect ECONNREFUSED'',
         ClientClose ''client'', Sleep 2500,
         Connect ''client'' ''transport'']\<rparr>)"
    by (simp add: cs close_failing_world_def)
  from th[of "scripted_world 2"] h2
  have b: "connectMetaMcpClient ''client'' ''transport'' (close_failing_world 2) =
     (Some \<lparr>cc_client = ''client'', cleanup = cleanup_closure ''client'' ''transport''\<rparr>,
      (close_failing_world 2)\<lparr>calls :=
        [Connect ''client'' ''transport'',
         ConsoleError ''Error connecting to MetaMCP client: Error: connect ECONNREFUSED'',
         ClientClose ''client'', Sleep 2500,
         Connect ''client'' ''transport'',
         ConsoleError ''Error connecting to MetaMCP client: Error: connect ECONNREFUSED'',
         ClientClose ''client'', Sleep 2500,
         Connect ''client'' ''transport'']\<rparr>)"
    by (simp add: cs close_failing_world_def)
  from th[of "scripted_world 3"] h3
  have c: "connectMetaMcpClient ''client'' ''transport'' (close_failing_world 3) =
     (None,
      (close_failing_world 3)\<lparr>calls :=
        [Connect ''client'' ''transport'',
         ConsoleError ''Error connecting to MetaMCP client: Error: connect ECONNREFUSED'',
         ClientClose ''client'', Sleep 2500,
         Connect ''client'' ''transport'',
         ConsoleError ''Error connecting to MetaMCP client: Error: connect ECONNREFUSED'',
         ClientClose ''client'', Sleep 2500,
         Connect ''client'' ''transport'',
         ConsoleError ''Error connecting to MetaMCP client: Error: connect ECONNREFUSED'']\<rparr>)"
    by (simp add: cs close_failing_world_def)
  from th[of "scripted_world 2"]
  have d: "connectMetaMcpClient ''client'' ''transport'' (close_failing_world 2) =
     (fst (connectMetaMcpClient ''client'' ''transport'' (scripted_world 2)),
      (snd (connectMetaMcpClient ''client'' ''transport'' (scripted_world 2)))
        \<lparr>client_close_outcome := ?k\<rparr>)"
    unfolding close_failing_world_def by blast
  from rej h1 h2 h3 a b c d show ?thesis by blast
qed

end
